theory Spec2Isabelle
  imports Main "HOL-Library.Word" "HOL-Library.AList"
begin

unbundle bit_operations_syntax

section \<open>Python values, exceptions and strings\<close>

text \<open>
  The two scripts \<^verbatim>\<open>rubric_0_shot.py\<close> and \<^verbatim>\<open>rubric_many_shots.py\<close> move Python
  objects between a pandas table, a list of prompts and the results of a text-generation
  service. The objects that can occur are the cells of a table read from CSV and the
  values \<^verbatim>\<open>json.loads\<close> returns: \<^verbatim>\<open>None\<close>, booleans, integers, floats, strings, lists
  and dictionaries with string keys.

  A Python \<^verbatim>\<open>str\<close> is a sequence of code points. A \<^typ>\<open>string\<close> stands for the
  Python string whose code points are the values of its characters, so the strings of
  the model are the Python strings over the code points below 256. A float is kept as its
  64 IEEE-754 bits; the only thing ever computed from it is whether it is a NaN. A
  dictionary is the association list of its items, read with \<^const>\<open>map_of\<close>.
\<close>

datatype pyval =
    PNone
  | PBool bool
  | PInt int
  | PFloat "64 word"
  | PStr string
  | PList "pyval list"
  | PDict "(string \<times> pyval) list"

datatype py_exception =
    ValueError string
  | TypeError string
  | KeyError string
  | AttributeError string
  | JSONDecodeError string
  | RecursionError string
  | OverflowError string

text \<open>\<^verbatim>\<open>str(e)\<close>, as the f-string \<^verbatim>\<open>f"JSON parse error: {e}"\<close> formats the exception.\<close>

fun exception_str :: "py_exception \<Rightarrow> string" where
  "exception_str (ValueError m) = m"
| "exception_str (TypeError m) = m"
| "exception_str (KeyError m) = m"
| "exception_str (AttributeError m) = m"
| "exception_str (JSONDecodeError m) = m"
| "exception_str (RecursionError m) = m"
| "exception_str (OverflowError m) = m"

text \<open>\<^verbatim>\<open>type(v).__name__\<close>, which Python's error messages quote.\<close>

fun type_name :: "pyval \<Rightarrow> string" where
  "type_name PNone = ''NoneType''"
| "type_name (PBool _) = ''bool''"
| "type_name (PInt _) = ''int''"
| "type_name (PFloat _) = ''float''"
| "type_name (PStr _) = ''str''"
| "type_name (PList _) = ''list''"
| "type_name (PDict _) = ''dict''"

definition float_is_nan :: "64 word \<Rightarrow> bool" where
  "float_is_nan w \<longleftrightarrow>
     w AND 0x7FF0000000000000 = 0x7FF0000000000000 \<and> w AND 0x000FFFFFFFFFFFFF \<noteq> 0"

definition np_nan :: pyval where
  "np_nan = PFloat 0x7FF8000000000000"

text \<open>
  \<^verbatim>\<open>str.isspace\<close> on one code point below 256: the ASCII white space
  \<^verbatim>\<open>\t \n \v \f \r\<close>, the separators \<^verbatim>\<open>\x1c\<close> to \<^verbatim>\<open>\x1f\<close>, the space, and
  \<^verbatim>\<open>\x85\<close> and \<^verbatim>\<open>\xa0\<close>.
\<close>

definition py_isspace :: "char \<Rightarrow> bool" where
  "py_isspace c \<longleftrightarrow>
     (let n = (of_char c :: nat)
      in (9 \<le> n \<and> n \<le> 13) \<or> (28 \<le> n \<and> n \<le> 32) \<or> n = 133 \<or> n = 160)"

text \<open>\<^verbatim>\<open>s.strip()\<close>: leading and trailing white space removed.\<close>

definition strip :: "string \<Rightarrow> string" where
  "strip s = rev (dropWhile py_isspace (rev (dropWhile py_isspace s)))"

text \<open>\<^verbatim>\<open>str(n)\<close> for a length, as pandas formats it in its error message.\<close>

fun str_nat :: "nat \<Rightarrow> string" where
  "str_nat n =
     (if n < 10 then [char_of (48 + n)]
      else str_nat (n div 10) @ [char_of (48 + n mod 10)])"

declare str_nat.simps [simp del]

text \<open>
  \<^verbatim>\<open>repr\<close> of a string, which formats the column names inside
  \<^verbatim>\<open>{list(df.columns)}\<close>: double quotes when the string has a single quote and no double
  quote, single quotes otherwise; the quote and the backslash are escaped, so are
  \<^verbatim>\<open>\t \n \r\<close>, and every other code point that is not printable is written
  \<^verbatim>\<open>\xhh\<close>.
\<close>

definition py_isprintable :: "char \<Rightarrow> bool" where
  "py_isprintable c \<longleftrightarrow>
     (let n = (of_char c :: nat)
      in (32 \<le> n \<and> n \<le> 126) \<or> (161 \<le> n \<and> n \<noteq> 173))"

definition hex_digit :: "nat \<Rightarrow> char" where
  "hex_digit k = (if k < 10 then char_of (48 + k) else char_of (87 + k))"

definition repr_char :: "char \<Rightarrow> char \<Rightarrow> string" where
  "repr_char q c =
     (if c = q \<or> c = CHR 0x5C then [CHR 0x5C, c]
      else if c = CHR 0x09 then [CHR 0x5C, CHR ''t'']
      else if c = CHR 0x0A then [CHR 0x5C, CHR ''n'']
      else if c = CHR 0x0D then [CHR 0x5C, CHR ''r'']
      else if \<not> py_isprintable c
        then [CHR 0x5C, CHR ''x'', hex_digit (of_char c div 16), hex_digit (of_char c mod 16)]
      else [c])"

definition repr_str :: "string \<Rightarrow> string" where
  "repr_str s =
     (let q = (if CHR 0x27 \<in> set s \<and> CHR 0x22 \<notin> set s then CHR 0x22 else CHR 0x27)
      in [q] @ concat (map (repr_char q) s) @ [q])"

fun join :: "string \<Rightarrow> string list \<Rightarrow> string" where
  "join sep [] = []"
| "join sep [x] = x"
| "join sep (x # y # ys) = x @ sep @ join sep (y # ys)"

definition repr_str_list :: "string list \<Rightarrow> string" where
  "repr_str_list xs = ''['' @ join '', '' (map repr_str xs) @ '']''"

section \<open>The table\<close>

text \<open>
  A pandas \<^verbatim>\<open>DataFrame\<close> as the scripts use it: the length of its index and its
  columns in order, each a name and the list of its cells. \<^verbatim>\<open>pd.read_csv\<close> returns
  tables whose column names are distinct and whose columns all have the length of the
  index; \<open>wf_dataframe\<close> says so.
\<close>

record dataframe =
  nrows :: nat
  columns :: "(string \<times> pyval list) list"

definition column_names :: "dataframe \<Rightarrow> string list" where
  "column_names df = map fst (columns df)"

definition wf_dataframe :: "dataframe \<Rightarrow> bool" where
  "wf_dataframe df \<longleftrightarrow>
     distinct (column_names df) \<and> list_all (\<lambda>c. length (snd c) = nrows df) (columns df)"

text \<open>\<^verbatim>\<open>df[name]\<close>: the column, or \<^verbatim>\<open>KeyError\<close>.\<close>

definition getitem :: "dataframe \<Rightarrow> string \<Rightarrow> py_exception + pyval list" where
  "getitem df name =
     (case map_of (columns df) name of
        None \<Rightarrow> Inl (KeyError (repr_str name))
      | Some col \<Rightarrow> Inr col)"

text \<open>\<^verbatim>\<open>pd.isna\<close> on one cell, and \<^verbatim>\<open>Series.fillna(value)\<close> on one cell.\<close>

fun isna :: "pyval \<Rightarrow> bool" where
  "isna PNone = True"
| "isna (PFloat w) = float_is_nan w"
| "isna _ = False"

definition fillna :: "pyval \<Rightarrow> pyval \<Rightarrow> pyval" where
  "fillna v x = (if isna x then v else x)"

text \<open>
  The conversion of a Python \<^verbatim>\<open>int\<close> to a C double, correctly rounded (ties to
  even), as the 64 bits of the double; \<open>None\<close> when the integer is too large, where
  Python raises \<^verbatim>\<open>OverflowError\<close>.
\<close>

function bit_length :: "int \<Rightarrow> nat" where
  "bit_length n = (if n \<le> 0 then 0 else Suc (bit_length (n div 2)))"
  by pat_completeness auto
termination
  by (relation "measure nat") auto

declare bit_length.simps [simp del]

definition float_of_int :: "int \<Rightarrow> 64 word option" where
  "float_of_int n =
     (if n = 0 then Some 0
      else
        let m = \<bar>n\<bar>;
            l = bit_length m;
            sign = (if n < 0 then 2 ^ 63 else (0 :: int));
            q = (if l \<le> 53 then m * 2 ^ (53 - l)
                 else let d = l - 53; t = m div 2 ^ d; r = m mod 2 ^ d
                      in if 2 ^ (d - 1) < r \<or> (r = 2 ^ (d - 1) \<and> odd t) then t + 1 else t);
            e = (if q = 2 ^ 53 then l else l - 1);
            frac = (if q = 2 ^ 53 then 0 else q - 2 ^ 52)
        in if 1023 < e then None
           else Some (word_of_int (sign + (int e + 1023) * 2 ^ 52 + frac)))"

text \<open>
  The column pandas stores for an assigned list. It first reads the list from the left
  and notes what it sees: \<^verbatim>\<open>None\<close>, a NaN, a boolean, a float, an integer (which it
  converts to a double on the spot, and whose range it checks unless a \<^verbatim>\<open>None\<close> came
  before), or any other object, at which it stops reading. Booleans with anything else,
  other objects, and integers outside 64 bits or needing both the signed and the
  unsigned range keep the list as it is, a column of objects. Otherwise floats, or
  integers together with a missing value, make a column of doubles, with NaN for
  \<^verbatim>\<open>None\<close> and every integer converted; a list of integers alone, of \<^verbatim>\<open>None\<close>
  alone or of booleans alone is kept as it is.
\<close>

record seen =
  seen_null :: bool
  seen_nan :: bool
  seen_bool :: bool
  seen_float :: bool
  seen_int :: bool
  seen_uint :: bool
  seen_sint :: bool
  seen_object :: bool

definition seen_nothing :: seen where
  "seen_nothing =
     \<lparr>seen_null = False, seen_nan = False, seen_bool = False, seen_float = False,
      seen_int = False, seen_uint = False, seen_sint = False, seen_object = False\<rparr>"

fun scan_objects :: "seen \<Rightarrow> pyval list \<Rightarrow> py_exception + seen" where
  "scan_objects s [] = Inr s"
| "scan_objects s (PNone # vs) = scan_objects (s\<lparr>seen_null := True\<rparr>) vs"
| "scan_objects s (PFloat w # vs) =
     (if float_is_nan w then scan_objects (s\<lparr>seen_nan := True\<rparr>) vs
      else scan_objects (s\<lparr>seen_float := True\<rparr>) vs)"
| "scan_objects s (PBool b # vs) = scan_objects (s\<lparr>seen_bool := True\<rparr>) vs"
| "scan_objects s (PInt n # vs) =
     (case float_of_int n of
        None \<Rightarrow> Inl (OverflowError ''int too large to convert to float'')
      | Some _ \<Rightarrow>
          if seen_null s then scan_objects (s\<lparr>seen_int := True\<rparr>) vs
          else
            let s' = s\<lparr>seen_int := True,
                        seen_sint := seen_sint s \<or> (- (2 ^ 63) \<le> n \<and> n < 0),
                        seen_uint := seen_uint s \<or> (2 ^ 63 - 1 < n \<and> n \<le> 2 ^ 64 - 1)\<rparr>
            in if (seen_uint s' \<and> seen_sint s') \<or> 2 ^ 64 - 1 < n \<or> n < - (2 ^ 63)
               then Inr (s'\<lparr>seen_object := True\<rparr>)
               else scan_objects s' vs)"
| "scan_objects s (_ # vs) = Inr (s\<lparr>seen_object := True\<rparr>)"

fun as_float :: "pyval \<Rightarrow> pyval" where
  "as_float PNone = np_nan"
| "as_float (PInt n) = (case float_of_int n of None \<Rightarrow> PInt n | Some w \<Rightarrow> PFloat w)"
| "as_float v = v"

definition maybe_convert_objects :: "pyval list \<Rightarrow> py_exception + pyval list" where
  "maybe_convert_objects vals =
     (case scan_objects seen_nothing vals of
        Inl e \<Rightarrow> Inl e
      | Inr s \<Rightarrow>
          Inr (if seen_bool s \<or> seen_object s then vals
               else if seen_null s \<or> seen_nan s then
                 (if seen_float s \<or> seen_int s \<or> seen_nan s then map as_float vals else vals)
               else if seen_float s then map as_float vals
               else vals))"

text \<open>
  \<^verbatim>\<open>df[name] = values\<close> with a list. A table whose index is empty takes its index from
  a non-empty list, and its columns are filled with NaN up to the new length. Otherwise
  the list must have the length of the index, or pandas raises \<^verbatim>\<open>ValueError\<close>. The
  list is stored as the column pandas makes of it, which replaces the column of that name
  where it is, or is appended as the last one.
\<close>

definition setitem :: "dataframe \<Rightarrow> string \<Rightarrow> pyval list \<Rightarrow> py_exception + dataframe" where
  "setitem df name vals =
     (if nrows df = 0 \<and> 0 < length vals then
        (case maybe_convert_objects vals of
           Inl e \<Rightarrow> Inl e
         | Inr arr \<Rightarrow>
             Inr \<lparr>nrows = length vals,
                  columns = AList.update name arr
                    (map (\<lambda>c. (fst c, replicate (length vals) np_nan)) (columns df))\<rparr>)
      else if length vals \<noteq> nrows df then
        Inl (ValueError (''Length of values ('' @ str_nat (length vals)
               @ '') does not match length of index ('' @ str_nat (nrows df) @ '')''))
      else
        (case maybe_convert_objects vals of
           Inl e \<Rightarrow> Inl e
         | Inr arr \<Rightarrow> Inr (df\<lparr>columns := AList.update name arr (columns df)\<rparr>)))"

text \<open>A sequence of such assignments; the first that raises ends it.\<close>

fun setitems :: "dataframe \<Rightarrow> (string \<times> pyval list) list \<Rightarrow> py_exception + dataframe" where
  "setitems df [] = Inr df"
| "setitems df (a # as) =
     (case setitem df (fst a) (snd a) of
        Inl e \<Rightarrow> Inl e
      | Inr df' \<Rightarrow> setitems df' as)"

text \<open>
  \<^verbatim>\<open>df.to_csv(path, index=False)\<close>: the header and one row of cells per index
  position. The text of the cells in the file is left to pandas.
\<close>

record csv_table =
  header :: "string list"
  rows :: "pyval list list"

definition to_csv :: "dataframe \<Rightarrow> csv_table" where
  "to_csv df =
     \<lparr>header = column_names df,
      rows = map (\<lambda>i. map (\<lambda>c. snd c ! i) (columns df)) [0..<nrows df]\<rparr>"

section \<open>Configuration and prompts\<close>

definition TEXT_COLUMN :: string where
  "TEXT_COLUMN = ''body_text''"

text \<open>The message of the \<^verbatim>\<open>ValueError\<close> both scripts raise for a missing column.\<close>

definition column_not_found :: "dataframe \<Rightarrow> string" where
  "column_not_found df =
     ''Column '' @ [CHR 0x27] @ TEXT_COLUMN @ [CHR 0x27]
       @ '' not found in CSV. Available columns: '' @ repr_str_list (column_names df)"

text \<open>
  The first lines of \<open>main\<close>, the same in both scripts: the check for the column, and
  \<^verbatim>\<open>comments = df[TEXT_COLUMN].fillna("").tolist()\<close>.
\<close>

definition load_comments :: "dataframe \<Rightarrow> py_exception + pyval list" where
  "load_comments df =
     (if TEXT_COLUMN \<notin> set (column_names df) then Inl (ValueError (column_not_found df))
      else case getitem df TEXT_COLUMN of
             Inl e \<Rightarrow> Inl e
           | Inr col \<Rightarrow> Inr (map (fillna (PStr [])) col))"

text \<open>
  \<^verbatim>\<open>s + c\<close> for a string \<open>s\<close>: concatenation when \<open>c\<close> is a string, \<^verbatim>\<open>TypeError\<close>
  otherwise.
\<close>

definition str_add :: "string \<Rightarrow> pyval \<Rightarrow> py_exception + string" where
  "str_add s c =
     (case c of
        PStr t \<Rightarrow> Inr (s @ t)
      | _ \<Rightarrow> Inl (TypeError (''can only concatenate str (not '' @ [CHR 0x22] @ type_name c
                 @ [CHR 0x22] @ '') to str'')))"

text \<open>
  The prompt of one comment. \<open>SYSTEM_INSTRUCTIONS\<close> is the rubric text of the script,
  a different constant in each; the functions take it as an argument.
\<close>

definition prompt_0_shot :: "string \<Rightarrow> pyval \<Rightarrow> py_exception + string" where
  "prompt_0_shot SYSTEM_INSTRUCTIONS c =
     (case str_add (SYSTEM_INSTRUCTIONS @ ''\<newline>\<newline>Comment:\<newline>'') c of
        Inl e \<Rightarrow> Inl e
      | Inr s \<Rightarrow> Inr (s @ ''\<newline>\<newline>Return ONLY the JSON object.''))"

definition prompt_many_shots :: "string \<Rightarrow> pyval \<Rightarrow> py_exception + string" where
  "prompt_many_shots SYSTEM_INSTRUCTIONS c =
     (case str_add (SYSTEM_INSTRUCTIONS @ ''\<newline>\<newline>Comment:\<newline>'') c of
        Inl e \<Rightarrow> Inl e
      | Inr s \<Rightarrow> Inr (s @ ''\<newline>\<newline>Label:''))"

text \<open>The loop \<^verbatim>\<open>for c in comments: ... prompts.append(prompt)\<close>.\<close>

fun build_prompts ::
  "(pyval \<Rightarrow> py_exception + string) \<Rightarrow> pyval list \<Rightarrow> string list \<Rightarrow> py_exception + string list"
where
  "build_prompts mk [] prompts = Inr prompts"
| "build_prompts mk (c # cs) prompts =
     (case mk c of
        Inl e \<Rightarrow> Inl e
      | Inr prompt \<Rightarrow> build_prompts mk cs (prompts @ [prompt]))"

section \<open>The generation service\<close>

text \<open>
  \<^verbatim>\<open>llm.generate\<close> returns one \<^verbatim>\<open>RequestOutput\<close> per prompt; the scripts read its
  list \<^verbatim>\<open>outputs\<close> and the \<^verbatim>\<open>text\<close> of the first completion. The service and
  \<^verbatim>\<open>json.loads\<close> are library code: the scripts are modelled for every service
  \<open>generate\<close> and every parser \<open>json_loads\<close>, which returns the parsed value or the
  exception it raises.
\<close>

record completion_output =
  text_field :: string

record request_output =
  outputs :: "completion_output list"

type_synonym service = "string list \<Rightarrow> request_output list"
type_synonym parser = "string \<Rightarrow> py_exception + pyval"

text \<open>
  \<^verbatim>\<open>parsed.get(key)\<close> and \<^verbatim>\<open>parsed.get(key, default)\<close>: a dictionary answers with
  the value or the default; any other value has no attribute \<^verbatim>\<open>get\<close>.
\<close>

definition py_get :: "pyval \<Rightarrow> string \<Rightarrow> pyval \<Rightarrow> py_exception + pyval" where
  "py_get parsed key dflt =
     (case parsed of
        PDict items \<Rightarrow> Inr (case map_of items key of None \<Rightarrow> dflt | Some v \<Rightarrow> v)
      | _ \<Rightarrow> Inl (AttributeError ([CHR 0x27] @ type_name parsed @ [CHR 0x27]
                 @ '' object has no attribute '' @ [CHR 0x27] @ ''get'' @ [CHR 0x27])))"

section \<open>Collecting the labels, zero-shot\<close>

text \<open>The seven lists the loop of \<^verbatim>\<open>rubric_0_shot.py\<close> appends to.\<close>

record collected =
  raw_json_outputs :: "pyval list"
  indiv_list :: "pyval list"
  coll_list :: "pyval list"
  deliber_list :: "pyval list"
  align_list :: "pyval list"
  none_list :: "pyval list"
  reasons :: "pyval list"

definition empty_collected :: collected where
  "empty_collected =
     \<lparr>raw_json_outputs = [], indiv_list = [], coll_list = [], deliber_list = [],
      align_list = [], none_list = [], reasons = []\<rparr>"

text \<open>
  The body of the \<^verbatim>\<open>try\<close>: the statements run in order on the lists, and the first
  exception ends it. The result is the lists as they are at that point and the
  exception, if any.
\<close>

definition try_body :: "parser \<Rightarrow> string \<Rightarrow> collected \<Rightarrow> collected \<times> py_exception option" where
  "try_body json_loads text st =
     (case json_loads text of Inl e \<Rightarrow> (st, Some e) | Inr parsed \<Rightarrow>
      (case py_get parsed ''individual_voice'' PNone of Inl e \<Rightarrow> (st, Some e) | Inr v1 \<Rightarrow>
       let st1 = st\<lparr>indiv_list := indiv_list st @ [v1]\<rparr> in
      (case py_get parsed ''collective_voice'' PNone of Inl e \<Rightarrow> (st1, Some e) | Inr v2 \<Rightarrow>
       let st2 = st1\<lparr>coll_list := coll_list st1 @ [v2]\<rparr> in
      (case py_get parsed ''internal_deliberation'' PNone of Inl e \<Rightarrow> (st2, Some e) | Inr v3 \<Rightarrow>
       let st3 = st2\<lparr>deliber_list := deliber_list st2 @ [v3]\<rparr> in
      (case py_get parsed ''align_with_company'' PNone of Inl e \<Rightarrow> (st3, Some e) | Inr v4 \<Rightarrow>
       let st4 = st3\<lparr>align_list := align_list st3 @ [v4]\<rparr> in
      (case py_get parsed ''none_of_the_above'' PNone of Inl e \<Rightarrow> (st4, Some e) | Inr v5 \<Rightarrow>
       let st5 = st4\<lparr>none_list := none_list st4 @ [v5]\<rparr> in
      (case py_get parsed ''reason'' (PStr []) of Inl e \<Rightarrow> (st5, Some e) | Inr v6 \<Rightarrow>
       (st5\<lparr>reasons := reasons st5 @ [v6]\<rparr>, None))))))))"

text \<open>The \<^verbatim>\<open>except Exception as e\<close> block.\<close>

definition except_body :: "py_exception \<Rightarrow> collected \<Rightarrow> collected" where
  "except_body e st =
     st\<lparr>indiv_list := indiv_list st @ [PNone],
        coll_list := coll_list st @ [PNone],
        deliber_list := deliber_list st @ [PNone],
        align_list := align_list st @ [PNone],
        none_list := none_list st @ [PNone],
        reasons := reasons st @ [PStr (''JSON parse error: '' @ exception_str e)]\<rparr>"

text \<open>One pass of the loop \<^verbatim>\<open>for out in tqdm(outputs, ...)\<close>.\<close>

definition collect_0_shot :: "parser \<Rightarrow> request_output \<Rightarrow> collected \<Rightarrow> collected" where
  "collect_0_shot json_loads out st =
     (case outputs out of
        [] \<Rightarrow>
          st\<lparr>raw_json_outputs := raw_json_outputs st @ [PStr []],
             indiv_list := indiv_list st @ [PNone],
             coll_list := coll_list st @ [PNone],
             deliber_list := deliber_list st @ [PNone],
             align_list := align_list st @ [PNone],
             none_list := none_list st @ [PNone],
             reasons := reasons st @ [PStr ''LLM returned empty output'']\<rparr>
      | c # _ \<Rightarrow>
          let text = strip (text_field c);
              st0 = st\<lparr>raw_json_outputs := raw_json_outputs st @ [PStr text]\<rparr>
          in (case try_body json_loads text st0 of
                (st', None) \<Rightarrow> st'
              | (st', Some e) \<Rightarrow> except_body e st'))"

fun collect_all_0_shot :: "parser \<Rightarrow> request_output list \<Rightarrow> collected \<Rightarrow> collected" where
  "collect_all_0_shot json_loads [] st = st"
| "collect_all_0_shot json_loads (out # outs) st =
     collect_all_0_shot json_loads outs (collect_0_shot json_loads out st)"

section \<open>Collecting the labels, few-shot\<close>

definition collect_many_shots :: "request_output \<Rightarrow> pyval list \<Rightarrow> pyval list" where
  "collect_many_shots out labels =
     (case outputs out of
        [] \<Rightarrow> labels @ [PStr ''ERROR:EMPTY_OUTPUT'']
      | c # _ \<Rightarrow> labels @ [PStr (strip (text_field c))])"

fun collect_all_many_shots :: "request_output list \<Rightarrow> pyval list \<Rightarrow> pyval list" where
  "collect_all_many_shots [] labels = labels"
| "collect_all_many_shots (out # outs) labels =
     collect_all_many_shots outs (collect_many_shots out labels)"

section \<open>The two scripts\<close>

text \<open>
  \<open>main\<close> of each script, from the table \<^verbatim>\<open>pd.read_csv\<close> returned to the table
  handed to \<^verbatim>\<open>to_csv\<close>. The first component of the result is the list of the calls
  made to the service, each with its prompts; the second is the exception that ended the
  run or the table written.
\<close>

definition result_columns_0_shot :: "collected \<Rightarrow> (string \<times> pyval list) list" where
  "result_columns_0_shot st =
     [(''voice_label_raw_json'', raw_json_outputs st),
      (''individual_voice'', indiv_list st),
      (''collective_voice'', coll_list st),
      (''internal_deliberation'', deliber_list st),
      (''align_with_company'', align_list st),
      (''none_of_the_above'', none_list st),
      (''reason'', reasons st)]"

definition main_0_shot ::
  "string \<Rightarrow> service \<Rightarrow> parser \<Rightarrow> dataframe \<Rightarrow> string list list \<times> (py_exception + dataframe)"
where
  "main_0_shot SYSTEM_INSTRUCTIONS generate json_loads df =
     (case load_comments df of
        Inl e \<Rightarrow> ([], Inl e)
      | Inr comments \<Rightarrow>
          (case build_prompts (prompt_0_shot SYSTEM_INSTRUCTIONS) comments [] of
             Inl e \<Rightarrow> ([], Inl e)
           | Inr prompts \<Rightarrow>
               let outs = generate prompts;
                   st = collect_all_0_shot json_loads outs empty_collected
               in ([prompts], setitems df (result_columns_0_shot st))))"

definition main_many_shots ::
  "string \<Rightarrow> service \<Rightarrow> dataframe \<Rightarrow> string list list \<times> (py_exception + dataframe)"
where
  "main_many_shots SYSTEM_INSTRUCTIONS generate df =
     (case load_comments df of
        Inl e \<Rightarrow> ([], Inl e)
      | Inr comments \<Rightarrow>
          (case build_prompts (prompt_many_shots SYSTEM_INSTRUCTIONS) comments [] of
             Inl e \<Rightarrow> ([], Inl e)
           | Inr prompts \<Rightarrow>
               let outs = generate prompts;
                   labels = collect_all_many_shots outs []
               in ([prompts], setitems df [(''voice_label'', labels)])))"

section \<open>Canned services and parsers\<close>

text \<open>
  Stand-ins for the library code at concrete inputs: a service that answers every prompt
  with the same result, and a parser that knows the texts of a table and raises the
  error \<^verbatim>\<open>json.loads\<close> raises on a text that does not start a JSON value.
\<close>

definition canned_service :: "request_output \<Rightarrow> service" where
  "canned_service r prompts = map (\<lambda>_. r) prompts"

definition canned_parser :: "(string \<times> pyval) list \<Rightarrow> parser" where
  "canned_parser table text =
     (case map_of table text of
        Some v \<Rightarrow> Inr v
      | None \<Rightarrow> Inl (JSONDecodeError ''Expecting value: line 1 column 1 (char 0)''))"

section \<open>Auxiliary notions for the proofs\<close>

text \<open>The lists of \<open>r\<close> appended to the lists of \<open>st\<close>, list by list.\<close>

definition extend_collected :: "collected \<Rightarrow> collected \<Rightarrow> collected" where
  "extend_collected st r =
     \<lparr>raw_json_outputs = raw_json_outputs st @ raw_json_outputs r,
      indiv_list = indiv_list st @ indiv_list r,
      coll_list = coll_list st @ coll_list r,
      deliber_list = deliber_list st @ deliber_list r,
      align_list = align_list st @ align_list r,
      none_list = none_list st @ none_list r,
      reasons = reasons st @ reasons r\<rparr>"

text \<open>\<^verbatim>\<open>isinstance(x, str)\<close>.\<close>

fun is_str :: "pyval \<Rightarrow> bool" where
  "is_str (PStr _) = True"
| "is_str _ = False"

text \<open>The columns pandas makes of a sequence of assigned lists, in their order.\<close>

fun convert_columns ::
  "(string \<times> pyval list) list \<Rightarrow> py_exception + (string \<times> pyval list) list"
where
  "convert_columns [] = Inr []"
| "convert_columns (a # as) =
     (case maybe_convert_objects (snd a) of
        Inl e \<Rightarrow> Inl e
      | Inr arr \<Rightarrow>
          (case convert_columns as of
             Inl e \<Rightarrow> Inl e
           | Inr as' \<Rightarrow> Inr ((fst a, arr) # as')))"

section \<open>Assignments to the table\<close>

lemma update_fresh: "k \<notin> fst ` set al \<Longrightarrow> AList.update k v al = al @ [(k, v)]"
  by (induction al) auto

lemma fold_update_fresh:
  "distinct (map fst as) \<Longrightarrow> fst ` set as \<inter> fst ` set al = {} \<Longrightarrow>
   fold (\<lambda>a. AList.update (fst a) (snd a)) as al = al @ as"
proof (induction as arbitrary: al)
  case Nil
  then show ?case by simp
next
  case (Cons a as)
  from Cons.prems have fresh: "fst a \<notin> fst ` set al" by auto
  have step: "AList.update (fst a) (snd a) al = al @ [a]"
    using update_fresh [OF fresh, of "snd a"] by simp
  from Cons.prems have "fst ` set as \<inter> fst ` set (al @ [a]) = {}" by auto
  moreover from Cons.prems have "distinct (map fst as)" by simp
  ultimately have "fold (\<lambda>a. AList.update (fst a) (snd a)) as (al @ [a]) = (al @ [a]) @ as"
    by (rule Cons.IH [rotated])
  with step show ?case by simp
qed

lemma update_lengths:
  "list_all (\<lambda>c. length (snd c) = n) al \<Longrightarrow> length v = n \<Longrightarrow>
   list_all (\<lambda>c. length (snd c) = n) (AList.update k v al)"
  by (induction al) auto

lemma fold_update_lengths:
  "list_all (\<lambda>c. length (snd c) = n) al \<Longrightarrow> list_all (\<lambda>a. length (snd a) = n) as \<Longrightarrow>
   list_all (\<lambda>c. length (snd c) = n) (fold (\<lambda>a. AList.update (fst a) (snd a)) as al)"
  by (induction as arbitrary: al) (auto simp: update_lengths)

lemma fold_update_distinct:
  "distinct (map fst al) \<Longrightarrow> distinct (map fst (fold (\<lambda>a. AList.update (fst a) (snd a)) as al))"
  by (induction as arbitrary: al) (auto simp: distinct_update)

lemma scan_objects_error:
  "scan_objects s vals = Inl e \<Longrightarrow> e = OverflowError ''int too large to convert to float''"
  by (induction s vals rule: scan_objects.induct)
    (auto simp: Let_def split: if_splits option.splits)

lemma maybe_convert_objects_error:
  "maybe_convert_objects vals = Inl e \<Longrightarrow>
   e = OverflowError ''int too large to convert to float''"
  by (auto simp: maybe_convert_objects_def split: sum.splits dest: scan_objects_error)

lemma maybe_convert_objects_length:
  "maybe_convert_objects vals = Inr arr \<Longrightarrow> length arr = length vals"
  by (auto simp: maybe_convert_objects_def split: sum.splits if_splits)

text \<open>
  The column for a list of an integer and \<^verbatim>\<open>None\<close> is \<^verbatim>\<open>[1.0, nan]\<close>, for an
  integer and the float 2.5 it is \<^verbatim>\<open>[1.0, 2.5]\<close>; booleans with \<^verbatim>\<open>None\<close>, and
  \<^verbatim>\<open>None\<close> alone, are kept.
\<close>

lemma maybe_convert_objects_examples:
  "maybe_convert_objects [PInt 1, PNone] = Inr [PFloat 0x3FF0000000000000, np_nan]"
  "maybe_convert_objects [PInt 1, PFloat 0x4004000000000000] =
     Inr [PFloat 0x3FF0000000000000, PFloat 0x4004000000000000]"
  "maybe_convert_objects [PBool True, PNone] = Inr [PBool True, PNone]"
  "maybe_convert_objects [PNone, PNone] = Inr [PNone, PNone]"
  by code_simp+

lemma scan_objects_strs: "list_all is_str vals \<Longrightarrow> \<exists>s'. scan_objects s vals = Inr s'"
proof (cases vals)
  case Nil
  then show ?thesis by simp
next
  case (Cons v vs)
  assume "list_all is_str vals"
  with Cons obtain t where "v = PStr t" by (cases v) simp_all
  with Cons show ?thesis by simp
qed

lemma map_as_float_strs: "list_all is_str vals \<Longrightarrow> map as_float vals = vals"
proof (induction vals)
  case Nil
  show ?case by simp
next
  case (Cons v vs)
  then obtain t where "v = PStr t" by (cases v) simp_all
  with Cons show ?case by simp
qed

lemma maybe_convert_objects_strs:
  assumes "list_all is_str vals"
  shows "maybe_convert_objects vals = Inr vals"
proof -
  from scan_objects_strs [OF assms] obtain s'
    where "scan_objects seen_nothing vals = Inr s'" by blast
  then show ?thesis
    by (simp add: maybe_convert_objects_def map_as_float_strs [OF assms])
qed

lemma convert_columns_names:
  "convert_columns as = Inr as' \<Longrightarrow> map fst as' = map fst as"
  by (induction as arbitrary: as') (auto split: sum.splits)

lemma convert_columns_lengths:
  "convert_columns as = Inr as' \<Longrightarrow> list_all (\<lambda>a. length (snd a) = n) as \<Longrightarrow>
   list_all (\<lambda>a. length (snd a) = n) as'"
  by (induction as arbitrary: as')
    (auto split: sum.splits dest: maybe_convert_objects_length)

lemma convert_columns_error:
  "convert_columns as = Inl e \<Longrightarrow> e = OverflowError ''int too large to convert to float''"
  by (induction as) (auto split: sum.splits dest: maybe_convert_objects_error)

lemma convert_columns_strs:
  "list_all (\<lambda>a. list_all is_str (snd a)) as \<Longrightarrow> convert_columns as = Inr as"
  by (induction as) (simp_all add: maybe_convert_objects_strs)

lemma setitem_same_length:
  "length vals = nrows df \<Longrightarrow>
   setitem df name vals =
     (case maybe_convert_objects vals of
        Inl e \<Rightarrow> Inl e
      | Inr arr \<Rightarrow> Inr (df\<lparr>columns := AList.update name arr (columns df)\<rparr>))"
  by (cases "nrows df = 0") (simp_all add: setitem_def)

lemma setitems_same_length:
  "list_all (\<lambda>a. length (snd a) = nrows df) as \<Longrightarrow>
   setitems df as =
     (case convert_columns as of
        Inl e \<Rightarrow> Inl e
      | Inr as' \<Rightarrow>
          Inr (df\<lparr>columns := fold (\<lambda>a. AList.update (fst a) (snd a)) as' (columns df)\<rparr>))"
proof (induction as arbitrary: df)
  case Nil
  then show ?case by simp
next
  case (Cons a as)
  from Cons.prems have a: "length (snd a) = nrows df" by simp
  note first = setitem_same_length [OF a, of "fst a"]
  show ?case
  proof (cases "maybe_convert_objects (snd a)")
    case (Inl e)
    with first show ?thesis by simp
  next
    case (Inr arr)
    let ?df' = "df\<lparr>columns := AList.update (fst a) arr (columns df)\<rparr>"
    from Cons.prems have "list_all (\<lambda>a. length (snd a) = nrows ?df') as" by simp
    from Cons.IH [OF this] first Inr show ?thesis
      by (simp split: sum.splits)
  qed
qed

lemma setitem_reindex:
  "nrows df = 0 \<Longrightarrow> 0 < length vals \<Longrightarrow>
   setitem df name vals =
     setitem \<lparr>nrows = length vals,
              columns = map (\<lambda>c. (fst c, replicate (length vals) np_nan)) (columns df)\<rparr>
       name vals"
  by (simp add: setitem_def split: sum.splits)

lemma setitem_Inr_cases:
  "setitem df name vals = Inr out \<Longrightarrow>
   length vals = nrows df \<or> (nrows df = 0 \<and> 0 < length vals)"
  by (auto simp: setitem_def split: if_splits)

text \<open>
  A sequence of assignments of lists of one length that succeeds: either the lists have
  the length of the index, or the index was empty and the columns of the table were
  filled with NaN first.
\<close>

lemma setitems_equal_lengths:
  assumes lens: "list_all (\<lambda>a. length (snd a) = n) as"
    and ne: "as \<noteq> []"
    and ok: "setitems df as = Inr out"
  shows "\<exists>as'. convert_columns as = Inr as' \<and>
           ((nrows df = n \<and> nrows out = nrows df \<and>
             columns out = fold (\<lambda>a. AList.update (fst a) (snd a)) as' (columns df)) \<or>
            (nrows df = 0 \<and> 0 < n \<and> nrows out = n \<and>
             columns out = fold (\<lambda>a. AList.update (fst a) (snd a)) as'
               (map (\<lambda>c. (fst c, replicate n np_nan)) (columns df))))"
proof -
  from ne obtain a rest where as: "as = a # rest" by (cases as) auto
  with lens have la: "length (snd a) = n" by simp
  from ok as obtain df' where first: "setitem df (fst a) (snd a) = Inr df'"
    by (auto split: sum.splits)
  from setitem_Inr_cases [OF first] la
  consider (plain) "nrows df = n" | (reindex) "nrows df = 0" "0 < n" "nrows df \<noteq> n"
    by auto
  then show ?thesis
  proof cases
    case plain
    with lens have "list_all (\<lambda>a. length (snd a) = nrows df) as" by simp
    from setitems_same_length [OF this] ok plain show ?thesis
      by (auto split: sum.splits)
  next
    case reindex
    let ?df1 = "\<lparr>nrows = n, columns = map (\<lambda>c. (fst c, replicate n np_nan)) (columns df)\<rparr>"
    from reindex la have "setitem df (fst a) (snd a) = setitem ?df1 (fst a) (snd a)"
      using setitem_reindex [of df "snd a" "fst a"] by simp
    with ok as have ok1: "setitems ?df1 as = Inr out" by simp
    from lens have "list_all (\<lambda>a. length (snd a) = nrows ?df1) as" by simp
    from setitems_same_length [OF this] ok1 reindex show ?thesis
      by (auto split: sum.splits)
  qed
qed

section \<open>One pass of the zero-shot loop\<close>

lemma try_body_raises:
  "json_loads text = Inl e \<Longrightarrow> try_body json_loads text st = (st, Some e)"
  by (simp add: try_body_def)

lemma py_get_dict:
  "py_get (PDict items) key dflt = Inr (case map_of items key of None \<Rightarrow> dflt | Some v \<Rightarrow> v)"
  by (simp add: py_get_def)

lemma py_get_not_dict:
  "\<forall>items. parsed \<noteq> PDict items \<Longrightarrow>
   py_get parsed key dflt =
     Inl (AttributeError ([CHR 0x27] @ type_name parsed @ [CHR 0x27]
            @ '' object has no attribute '' @ [CHR 0x27] @ ''get'' @ [CHR 0x27]))"
  by (cases parsed) (simp_all add: py_get_def)

lemma try_body_not_dict:
  "json_loads text = Inr parsed \<Longrightarrow> \<forall>items. parsed \<noteq> PDict items \<Longrightarrow>
   try_body json_loads text st =
     (st, Some (AttributeError ([CHR 0x27] @ type_name parsed @ [CHR 0x27]
            @ '' object has no attribute '' @ [CHR 0x27] @ ''get'' @ [CHR 0x27])))"
  by (simp add: try_body_def py_get_not_dict)

lemma try_body_dict:
  "json_loads text = Inr (PDict items) \<Longrightarrow>
   try_body json_loads text st =
     (st\<lparr>indiv_list := indiv_list st
            @ [case map_of items ''individual_voice'' of None \<Rightarrow> PNone | Some v \<Rightarrow> v],
         coll_list := coll_list st
            @ [case map_of items ''collective_voice'' of None \<Rightarrow> PNone | Some v \<Rightarrow> v],
         deliber_list := deliber_list st
            @ [case map_of items ''internal_deliberation'' of None \<Rightarrow> PNone | Some v \<Rightarrow> v],
         align_list := align_list st
            @ [case map_of items ''align_with_company'' of None \<Rightarrow> PNone | Some v \<Rightarrow> v],
         none_list := none_list st
            @ [case map_of items ''none_of_the_above'' of None \<Rightarrow> PNone | Some v \<Rightarrow> v],
         reasons := reasons st
            @ [case map_of items ''reason'' of None \<Rightarrow> PStr [] | Some v \<Rightarrow> v]\<rparr>, None)"
  by (simp add: try_body_def py_get_dict Let_def)

lemma collect_0_shot_empty:
  "outputs out = [] \<Longrightarrow>
   collect_0_shot json_loads out st =
     st\<lparr>raw_json_outputs := raw_json_outputs st @ [PStr []],
        indiv_list := indiv_list st @ [PNone],
        coll_list := coll_list st @ [PNone],
        deliber_list := deliber_list st @ [PNone],
        align_list := align_list st @ [PNone],
        none_list := none_list st @ [PNone],
        reasons := reasons st @ [PStr ''LLM returned empty output'']\<rparr>"
  by (simp add: collect_0_shot_def)

lemma collect_0_shot_raises:
  "outputs out = c # cs \<Longrightarrow> json_loads (strip (text_field c)) = Inl e \<Longrightarrow>
   collect_0_shot json_loads out st =
     st\<lparr>raw_json_outputs := raw_json_outputs st @ [PStr (strip (text_field c))],
        indiv_list := indiv_list st @ [PNone],
        coll_list := coll_list st @ [PNone],
        deliber_list := deliber_list st @ [PNone],
        align_list := align_list st @ [PNone],
        none_list := none_list st @ [PNone],
        reasons := reasons st @ [PStr (''JSON parse error: '' @ exception_str e)]\<rparr>"
  by (simp add: collect_0_shot_def except_body_def try_body_raises Let_def)

lemma collect_0_shot_not_dict:
  "outputs out = c # cs \<Longrightarrow> json_loads (strip (text_field c)) = Inr parsed \<Longrightarrow>
   \<forall>items. parsed \<noteq> PDict items \<Longrightarrow>
   collect_0_shot json_loads out st =
     st\<lparr>raw_json_outputs := raw_json_outputs st @ [PStr (strip (text_field c))],
        indiv_list := indiv_list st @ [PNone],
        coll_list := coll_list st @ [PNone],
        deliber_list := deliber_list st @ [PNone],
        align_list := align_list st @ [PNone],
        none_list := none_list st @ [PNone],
        reasons := reasons st @ [PStr (''JSON parse error: '' @ [CHR 0x27] @ type_name parsed
            @ [CHR 0x27] @ '' object has no attribute '' @ [CHR 0x27] @ ''get'' @ [CHR 0x27])]\<rparr>"
  by (simp add: collect_0_shot_def except_body_def try_body_not_dict Let_def)

lemma collect_0_shot_dict:
  "outputs out = c # cs \<Longrightarrow> json_loads (strip (text_field c)) = Inr (PDict items) \<Longrightarrow>
   collect_0_shot json_loads out st =
     st\<lparr>raw_json_outputs := raw_json_outputs st @ [PStr (strip (text_field c))],
        indiv_list := indiv_list st
            @ [case map_of items ''individual_voice'' of None \<Rightarrow> PNone | Some v \<Rightarrow> v],
        coll_list := coll_list st
            @ [case map_of items ''collective_voice'' of None \<Rightarrow> PNone | Some v \<Rightarrow> v],
        deliber_list := deliber_list st
            @ [case map_of items ''internal_deliberation'' of None \<Rightarrow> PNone | Some v \<Rightarrow> v],
        align_list := align_list st
            @ [case map_of items ''align_with_company'' of None \<Rightarrow> PNone | Some v \<Rightarrow> v],
        none_list := none_list st
            @ [case map_of items ''none_of_the_above'' of None \<Rightarrow> PNone | Some v \<Rightarrow> v],
        reasons := reasons st
            @ [case map_of items ''reason'' of None \<Rightarrow> PStr [] | Some v \<Rightarrow> v]\<rparr>"
  by (simp add: collect_0_shot_def try_body_dict Let_def)

lemma collect_0_shot_extend:
  "collect_0_shot json_loads out st =
     extend_collected st (collect_0_shot json_loads out empty_collected)"
proof (cases "outputs out")
  case Nil
  then show ?thesis
    by (simp add: collect_0_shot_empty extend_collected_def empty_collected_def)
next
  case (Cons c cs)
  show ?thesis
  proof (cases "json_loads (strip (text_field c))")
    case (Inl e)
    show ?thesis
      by (simp add: collect_0_shot_raises [where json_loads = json_loads, OF Cons Inl] extend_collected_def empty_collected_def)
  next
    case (Inr parsed)
    show ?thesis
    proof (cases "\<exists>items. parsed = PDict items")
      case True
      then obtain items where "parsed = PDict items" ..
      with Inr have "json_loads (strip (text_field c)) = Inr (PDict items)" by simp
      then show ?thesis
        by (simp add: collect_0_shot_dict [where json_loads = json_loads, OF Cons] extend_collected_def empty_collected_def)
    next
      case False
      then have nd: "\<forall>items. parsed \<noteq> PDict items" by simp
      show ?thesis
        by (simp add: collect_0_shot_not_dict [where json_loads = json_loads, OF Cons Inr nd] extend_collected_def
            empty_collected_def)
    qed
  qed
qed


lemma extend_collected_empty: "extend_collected st empty_collected = st"
  by (simp add: extend_collected_def empty_collected_def)

lemma extend_collected_assoc:
  "extend_collected (extend_collected a b) c = extend_collected a (extend_collected b c)"
  by (simp add: extend_collected_def)

lemma collect_all_0_shot_extend:
  "collect_all_0_shot json_loads outs st =
     extend_collected st (collect_all_0_shot json_loads outs empty_collected)"
proof (induction outs arbitrary: st)
  case Nil
  show ?case by (simp add: extend_collected_empty)
next
  case (Cons out outs)
  let ?r = "collect_0_shot json_loads out empty_collected"
  have "collect_all_0_shot json_loads (out # outs) st =
          collect_all_0_shot json_loads outs (extend_collected st ?r)"
    using collect_0_shot_extend [of json_loads out st] by simp
  also have "\<dots> = extend_collected (extend_collected st ?r)
                     (collect_all_0_shot json_loads outs empty_collected)"
    by (rule Cons.IH)
  also have "\<dots> = extend_collected st
                     (extend_collected ?r (collect_all_0_shot json_loads outs empty_collected))"
    by (rule extend_collected_assoc)
  also have "extend_collected ?r (collect_all_0_shot json_loads outs empty_collected) =
               collect_all_0_shot json_loads (out # outs) empty_collected"
    using Cons.IH [of ?r] by simp
  finally show ?case .
qed

lemma collect_all_0_shot_Cons:
  "collect_all_0_shot json_loads (out # outs) empty_collected =
     extend_collected (collect_0_shot json_loads out empty_collected)
       (collect_all_0_shot json_loads outs empty_collected)"
  using collect_all_0_shot_extend [of json_loads outs "collect_0_shot json_loads out empty_collected"]
  by simp

lemma collect_0_shot_singletons:
  "length (raw_json_outputs (collect_0_shot json_loads out empty_collected)) = 1 \<and>
   length (indiv_list (collect_0_shot json_loads out empty_collected)) = 1 \<and>
   length (coll_list (collect_0_shot json_loads out empty_collected)) = 1 \<and>
   length (deliber_list (collect_0_shot json_loads out empty_collected)) = 1 \<and>
   length (align_list (collect_0_shot json_loads out empty_collected)) = 1 \<and>
   length (none_list (collect_0_shot json_loads out empty_collected)) = 1 \<and>
   length (reasons (collect_0_shot json_loads out empty_collected)) = 1"
proof (cases "outputs out")
  case Nil
  then show ?thesis
    by (simp add: collect_0_shot_empty empty_collected_def)
next
  case (Cons c cs)
  show ?thesis
  proof (cases "json_loads (strip (text_field c))")
    case (Inl e)
    show ?thesis
      by (simp add: collect_0_shot_raises [where json_loads = json_loads, OF Cons Inl] empty_collected_def)
  next
    case (Inr parsed)
    show ?thesis
    proof (cases "\<exists>items. parsed = PDict items")
      case True
      then obtain items where "parsed = PDict items" ..
      with Inr have "json_loads (strip (text_field c)) = Inr (PDict items)" by simp
      then show ?thesis
        by (simp add: collect_0_shot_dict [where json_loads = json_loads, OF Cons] empty_collected_def)
    next
      case False
      then have nd: "\<forall>items. parsed \<noteq> PDict items" by simp
      show ?thesis
        by (simp add: collect_0_shot_not_dict [where json_loads = json_loads, OF Cons Inr nd] empty_collected_def)
    qed
  qed
qed

section \<open>Iterating over the results\<close>

lemma singleton_hd: "length xs = 1 \<Longrightarrow> xs = [hd xs]"
  by (cases xs) simp_all

lemma collect_all_0_shot_map:
  "raw_json_outputs (collect_all_0_shot json_loads outs empty_collected) =
     map (\<lambda>out. hd (raw_json_outputs (collect_0_shot json_loads out empty_collected))) outs \<and>
   indiv_list (collect_all_0_shot json_loads outs empty_collected) =
     map (\<lambda>out. hd (indiv_list (collect_0_shot json_loads out empty_collected))) outs \<and>
   coll_list (collect_all_0_shot json_loads outs empty_collected) =
     map (\<lambda>out. hd (coll_list (collect_0_shot json_loads out empty_collected))) outs \<and>
   deliber_list (collect_all_0_shot json_loads outs empty_collected) =
     map (\<lambda>out. hd (deliber_list (collect_0_shot json_loads out empty_collected))) outs \<and>
   align_list (collect_all_0_shot json_loads outs empty_collected) =
     map (\<lambda>out. hd (align_list (collect_0_shot json_loads out empty_collected))) outs \<and>
   none_list (collect_all_0_shot json_loads outs empty_collected) =
     map (\<lambda>out. hd (none_list (collect_0_shot json_loads out empty_collected))) outs \<and>
   reasons (collect_all_0_shot json_loads outs empty_collected) =
     map (\<lambda>out. hd (reasons (collect_0_shot json_loads out empty_collected))) outs"
proof (induction outs)
  case Nil
  show ?case by (simp add: empty_collected_def)
next
  case (Cons out outs)
  note one = collect_0_shot_singletons [of json_loads out]
  from one have
    "raw_json_outputs (collect_0_shot json_loads out empty_collected) =
       [hd (raw_json_outputs (collect_0_shot json_loads out empty_collected))]"
    "indiv_list (collect_0_shot json_loads out empty_collected) =
       [hd (indiv_list (collect_0_shot json_loads out empty_collected))]"
    "coll_list (collect_0_shot json_loads out empty_collected) =
       [hd (coll_list (collect_0_shot json_loads out empty_collected))]"
    "deliber_list (collect_0_shot json_loads out empty_collected) =
       [hd (deliber_list (collect_0_shot json_loads out empty_collected))]"
    "align_list (collect_0_shot json_loads out empty_collected) =
       [hd (align_list (collect_0_shot json_loads out empty_collected))]"
    "none_list (collect_0_shot json_loads out empty_collected) =
       [hd (none_list (collect_0_shot json_loads out empty_collected))]"
    "reasons (collect_0_shot json_loads out empty_collected) =
       [hd (reasons (collect_0_shot json_loads out empty_collected))]"
    by (blast intro: singleton_hd)+
  with Cons.IH show ?case
    unfolding collect_all_0_shot_Cons extend_collected_def by simp
qed

lemma collect_all_0_shot_lengths:
  "length (raw_json_outputs (collect_all_0_shot json_loads outs empty_collected)) = length outs \<and>
   length (indiv_list (collect_all_0_shot json_loads outs empty_collected)) = length outs \<and>
   length (coll_list (collect_all_0_shot json_loads outs empty_collected)) = length outs \<and>
   length (deliber_list (collect_all_0_shot json_loads outs empty_collected)) = length outs \<and>
   length (align_list (collect_all_0_shot json_loads outs empty_collected)) = length outs \<and>
   length (none_list (collect_all_0_shot json_loads outs empty_collected)) = length outs \<and>
   length (reasons (collect_all_0_shot json_loads outs empty_collected)) = length outs"
  using collect_all_0_shot_map [of json_loads outs] by (metis length_map)

lemma collect_all_many_shots_map:
  "collect_all_many_shots outs labels = labels @ map (\<lambda>out. hd (collect_many_shots out [])) outs"
proof (induction outs arbitrary: labels)
  case Nil
  show ?case by simp
next
  case (Cons out outs)
  have "collect_many_shots out labels = labels @ [hd (collect_many_shots out [])]"
    by (simp add: collect_many_shots_def split: list.split)
  with Cons.IH [of "collect_many_shots out labels"] show ?case by simp
qed

lemma build_prompts_length:
  "build_prompts mk cs acc = Inr prompts \<Longrightarrow> length prompts = length acc + length cs"
proof (induction cs arbitrary: acc)
  case Nil
  then show ?case by auto
next
  case (Cons c cs)
  then show ?case by (auto split: sum.splits)
qed

lemma build_prompts_map:
  "list_all (\<lambda>c. mk c = Inr (f c)) cs \<Longrightarrow> build_prompts mk cs acc = Inr (acc @ map f cs)"
  by (induction cs arbitrary: acc) simp_all

lemma prompt_0_shot_str:
  "prompt_0_shot SYSTEM_INSTRUCTIONS (PStr t) =
     Inr (SYSTEM_INSTRUCTIONS @ ''\<newline>\<newline>Comment:\<newline>'' @ t @ ''\<newline>\<newline>Return ONLY the JSON object.'')"
  by (simp add: prompt_0_shot_def str_add_def)

lemma prompt_many_shots_str:
  "prompt_many_shots SYSTEM_INSTRUCTIONS (PStr t) =
     Inr (SYSTEM_INSTRUCTIONS @ ''\<newline>\<newline>Comment:\<newline>'' @ t @ ''\<newline>\<newline>Label:'')"
  by (simp add: prompt_many_shots_def str_add_def)

lemma build_prompts_total:
  assumes "list_all (\<lambda>c. \<exists>p. mk c = Inr p) cs"
  shows "\<exists>prompts. build_prompts mk cs acc = Inr prompts"
  using assms by (induction cs arbitrary: acc) auto

lemma load_comments_present:
  assumes "TEXT_COLUMN \<in> set (column_names df)"
  shows "\<exists>col. getitem df TEXT_COLUMN = Inr col \<and> (TEXT_COLUMN, col) \<in> set (columns df) \<and>
           load_comments df = Inr (map (fillna (PStr [])) col)"
proof -
  from assms have "TEXT_COLUMN \<in> fst ` set (columns df)"
    by (simp add: column_names_def)
  then obtain col where col: "map_of (columns df) TEXT_COLUMN = Some col"
    by (cases "map_of (columns df) TEXT_COLUMN") (auto simp: map_of_eq_None_iff)
  then have "(TEXT_COLUMN, col) \<in> set (columns df)" by (rule map_of_SomeD)
  with col assms show ?thesis
    by (simp add: load_comments_def getitem_def)
qed

lemma load_comments_length:
  assumes "wf_dataframe df" and "load_comments df = Inr comments"
  shows "length comments = nrows df"
proof -
  from assms(2) have present: "TEXT_COLUMN \<in> set (column_names df)"
    by (auto simp: load_comments_def split: if_splits)
  from load_comments_present [OF present] obtain col
    where col: "(TEXT_COLUMN, col) \<in> set (columns df)"
      and lc: "load_comments df = Inr (map (fillna (PStr [])) col)" by blast
  from assms(1) col have "length col = nrows df"
    by (auto simp: wf_dataframe_def list_all_iff)
  with lc assms(2) show ?thesis by auto
qed

section \<open>Errors of a run, and the prompts\<close>

lemma setitem_error:
  "setitem df name vals = Inl e \<Longrightarrow>
   (\<exists>m. e = ValueError (''Length of values ('' @ m)) \<or> (\<exists>m. e = OverflowError m)"
  by (auto simp: setitem_def split: if_splits sum.splits dest: maybe_convert_objects_error)

lemma setitems_error:
  "setitems df as = Inl e \<Longrightarrow>
   (\<exists>m. e = ValueError (''Length of values ('' @ m)) \<or> (\<exists>m. e = OverflowError m)"
proof (induction as arbitrary: df)
  case Nil
  then show ?case by simp
next
  case (Cons a as)
  show ?case
  proof (cases "setitem df (fst a) (snd a)")
    case (Inl e')
    with Cons.prems have "e' = e" by simp
    with Inl show ?thesis by (blast dest: setitem_error)
  next
    case (Inr df')
    with Cons.prems have "setitems df' as = Inl e" by simp
    then show ?thesis by (rule Cons.IH)
  qed
qed

lemma str_add_error: "str_add s c = Inl e \<Longrightarrow> \<exists>m. e = TypeError m"
  by (cases c) (auto simp: str_add_def)

lemma prompt_0_shot_error: "prompt_0_shot SYSTEM_INSTRUCTIONS c = Inl e \<Longrightarrow> \<exists>m. e = TypeError m"
  by (auto simp: prompt_0_shot_def split: sum.splits dest: str_add_error)

lemma prompt_many_shots_error:
  "prompt_many_shots SYSTEM_INSTRUCTIONS c = Inl e \<Longrightarrow> \<exists>m. e = TypeError m"
  by (auto simp: prompt_many_shots_def split: sum.splits dest: str_add_error)

lemma build_prompts_error:
  assumes "\<And>c e. mk c = Inl e \<Longrightarrow> \<exists>m. e = TypeError m"
    and "build_prompts mk cs acc = Inl e"
  shows "\<exists>m. e = TypeError m"
  using assms(2)
proof (induction cs arbitrary: acc)
  case Nil
  then show ?case by simp
next
  case (Cons c cs)
  show ?case
  proof (cases "mk c")
    case (Inl e')
    with Cons.prems have "e' = e" by simp
    with Inl assms(1) show ?thesis by blast
  next
    case (Inr p)
    with Cons.prems have "build_prompts mk cs (acc @ [p]) = Inl e" by simp
    then show ?thesis by (rule Cons.IH)
  qed
qed

lemma column_not_found_prefix:
  "column_not_found df = ''Column '' @ [CHR 0x27] @ ''body_text'' @ [CHR 0x27]
     @ '' not found in CSV. Available columns: '' @ repr_str_list (column_names df)"
  by (simp add: column_not_found_def TEXT_COLUMN_def)

lemma main_0_shot_missing:
  "TEXT_COLUMN \<notin> set (column_names df) \<Longrightarrow>
   main_0_shot SYSTEM_INSTRUCTIONS generate json_loads df =
     ([], Inl (ValueError (column_not_found df)))"
  by (simp add: main_0_shot_def load_comments_def)

lemma main_many_shots_missing:
  "TEXT_COLUMN \<notin> set (column_names df) \<Longrightarrow>
   main_many_shots SYSTEM_INSTRUCTIONS generate df =
     ([], Inl (ValueError (column_not_found df)))"
  by (simp add: main_many_shots_def load_comments_def)

text \<open>
  C6. For every comment text, the empty one included, the prompt is the instruction
  text, the delimiter, the comment as it is and the closing directive of the script, and
  the loop over a list of texts returns the list of these prompts; a string never makes
  it raise.
\<close>

theorem prompt_is_plain_concatenation:
  "prompt_0_shot SYSTEM_INSTRUCTIONS (PStr t) =
     Inr (SYSTEM_INSTRUCTIONS @ ''\<newline>\<newline>Comment:\<newline>'' @ t
            @ ''\<newline>\<newline>Return ONLY the JSON object.'') \<and>
   prompt_many_shots SYSTEM_INSTRUCTIONS (PStr t) =
     Inr (SYSTEM_INSTRUCTIONS @ ''\<newline>\<newline>Comment:\<newline>'' @ t @ ''\<newline>\<newline>Label:'') \<and>
   build_prompts (prompt_0_shot SYSTEM_INSTRUCTIONS) (map PStr ts) [] =
     Inr (map (\<lambda>t. SYSTEM_INSTRUCTIONS @ ''\<newline>\<newline>Comment:\<newline>'' @ t
                 @ ''\<newline>\<newline>Return ONLY the JSON object.'') ts) \<and>
   build_prompts (prompt_many_shots SYSTEM_INSTRUCTIONS) (map PStr ts) [] =
     Inr (map (\<lambda>t. SYSTEM_INSTRUCTIONS @ ''\<newline>\<newline>Comment:\<newline>'' @ t @ ''\<newline>\<newline>Label:'') ts)"
proof -
  have zero: "build_prompts (prompt_0_shot SYSTEM_INSTRUCTIONS) (map PStr ts) acc =
      Inr (acc @ map (\<lambda>t. SYSTEM_INSTRUCTIONS @ ''\<newline>\<newline>Comment:\<newline>'' @ t
                 @ ''\<newline>\<newline>Return ONLY the JSON object.'') ts)" for acc
    by (induction ts arbitrary: acc) (simp_all add: prompt_0_shot_str)
  have many: "build_prompts (prompt_many_shots SYSTEM_INSTRUCTIONS) (map PStr ts) acc =
      Inr (acc @ map (\<lambda>t. SYSTEM_INSTRUCTIONS @ ''\<newline>\<newline>Comment:\<newline>'' @ t
                 @ ''\<newline>\<newline>Label:'') ts)" for acc
    by (induction ts arbitrary: acc) (simp_all add: prompt_many_shots_str)
  show ?thesis
    using zero [of "[]"] many [of "[]"]
    by (simp add: prompt_0_shot_str prompt_many_shots_str)
qed

section \<open>Runs that write a table\<close>

lemma main_0_shot_Inr:
  assumes "snd (main_0_shot SYSTEM_INSTRUCTIONS generate json_loads df) = Inr out"
  shows "\<exists>comments prompts.
           load_comments df = Inr comments \<and>
           build_prompts (prompt_0_shot SYSTEM_INSTRUCTIONS) comments [] = Inr prompts \<and>
           fst (main_0_shot SYSTEM_INSTRUCTIONS generate json_loads df) = [prompts] \<and>
           setitems df (result_columns_0_shot
             (collect_all_0_shot json_loads (generate prompts) empty_collected)) = Inr out"
  using assms by (auto simp: main_0_shot_def Let_def split: sum.splits)

lemma main_many_shots_Inr:
  assumes "snd (main_many_shots SYSTEM_INSTRUCTIONS generate df) = Inr out"
  shows "\<exists>comments prompts.
           load_comments df = Inr comments \<and>
           build_prompts (prompt_many_shots SYSTEM_INSTRUCTIONS) comments [] = Inr prompts \<and>
           fst (main_many_shots SYSTEM_INSTRUCTIONS generate df) = [prompts] \<and>
           setitems df [(''voice_label'', collect_all_many_shots (generate prompts) [])] = Inr out"
  using assms by (auto simp: main_many_shots_def Let_def split: sum.splits)

lemma result_columns_0_shot_lengths:
  "list_all (\<lambda>a. length (snd a) = length outs)
     (result_columns_0_shot (collect_all_0_shot json_loads outs empty_collected))"
  using collect_all_0_shot_lengths [of json_loads outs]
  by (simp add: result_columns_0_shot_def)

lemma collect_all_many_shots_length:
  "length (collect_all_many_shots outs []) = length outs"
  by (simp add: collect_all_many_shots_map)

lemma collect_all_many_shots_strs: "list_all is_str (collect_all_many_shots outs [])"
proof -
  have "is_str (hd (collect_many_shots out []))" for out
    by (simp add: collect_many_shots_def split: list.split)
  then show ?thesis
    by (simp add: collect_all_many_shots_map list_all_iff)
qed

lemma setitems_paired:
  assumes lens: "list_all (\<lambda>a. length (snd a) = nrows df) as"
    and wf: "wf_dataframe df"
    and ok: "setitems df as = Inr out"
  shows "nrows out = nrows df \<and> wf_dataframe out"
proof -
  from setitems_same_length [OF lens] ok obtain as'
    where cc: "convert_columns as = Inr as'"
      and out: "out = df\<lparr>columns := fold (\<lambda>a. AList.update (fst a) (snd a)) as' (columns df)\<rparr>"
    by (auto split: sum.splits)
  from convert_columns_lengths [OF cc lens]
  have "list_all (\<lambda>a. length (snd a) = nrows df) as'" .
  with wf out fold_update_distinct [of "columns df" as']
    fold_update_lengths [of "nrows df" "columns df" as']
  show ?thesis by (simp add: wf_dataframe_def column_names_def)
qed

lemma setitems_paired_outcome:
  assumes "list_all (\<lambda>a. length (snd a) = nrows df) as"
  shows "(\<exists>out. setitems df as = Inr out) \<or>
         setitems df as = Inl (OverflowError ''int too large to convert to float'')"
proof (cases "convert_columns as")
  case (Inl e)
  with setitems_same_length [OF assms] convert_columns_error [OF Inl] show ?thesis by simp
next
  case (Inr as')
  with setitems_same_length [OF assms] show ?thesis by simp
qed

lemma to_csv_rows_length: "length (rows (to_csv df)) = nrows df"
  by (simp add: to_csv_def)

lemma to_csv_header: "header (to_csv df) = column_names df"
  by (simp add: to_csv_def)

lemma to_csv_row: "i < nrows df \<Longrightarrow> rows (to_csv df) ! i = map (\<lambda>c. snd c ! i) (columns df)"
  by (simp add: to_csv_def)

lemma is_str_prompt_0_shot:
  "is_str c \<Longrightarrow> \<exists>p. prompt_0_shot SYSTEM_INSTRUCTIONS c = Inr p"
  by (cases c) (simp_all add: prompt_0_shot_str)

lemma is_str_prompt_many_shots:
  "is_str c \<Longrightarrow> \<exists>p. prompt_many_shots SYSTEM_INSTRUCTIONS c = Inr p"
  by (cases c) (simp_all add: prompt_many_shots_str)

lemma main_0_shot_paired:
  assumes wf: "wf_dataframe df"
    and paired: "\<forall>prompts. length (generate prompts) = length prompts"
    and lc: "load_comments df = Inr comments"
    and bp: "build_prompts (prompt_0_shot SYSTEM_INSTRUCTIONS) comments [] = Inr prompts"
  shows "main_0_shot SYSTEM_INSTRUCTIONS generate json_loads df =
           ([prompts], setitems df (result_columns_0_shot
              (collect_all_0_shot json_loads (generate prompts) empty_collected)))"
    and "list_all (\<lambda>a. length (snd a) = nrows df) (result_columns_0_shot
              (collect_all_0_shot json_loads (generate prompts) empty_collected))"
proof -
  show "main_0_shot SYSTEM_INSTRUCTIONS generate json_loads df =
           ([prompts], setitems df (result_columns_0_shot
              (collect_all_0_shot json_loads (generate prompts) empty_collected)))"
    using lc bp by (simp add: main_0_shot_def Let_def)
  have "length prompts = length comments"
    using build_prompts_length [OF bp] by simp
  also have "\<dots> = nrows df"
    by (rule load_comments_length [OF wf lc])
  finally have "length (generate prompts) = nrows df"
    using paired by simp
  with result_columns_0_shot_lengths [of "generate prompts" json_loads]
  show "list_all (\<lambda>a. length (snd a) = nrows df) (result_columns_0_shot
              (collect_all_0_shot json_loads (generate prompts) empty_collected))"
    by simp
qed

lemma main_many_shots_paired:
  assumes wf: "wf_dataframe df"
    and paired: "\<forall>prompts. length (generate prompts) = length prompts"
    and lc: "load_comments df = Inr comments"
    and bp: "build_prompts (prompt_many_shots SYSTEM_INSTRUCTIONS) comments [] = Inr prompts"
  shows "main_many_shots SYSTEM_INSTRUCTIONS generate df =
           ([prompts], setitems df [(''voice_label'', collect_all_many_shots (generate prompts) [])])"
    and "list_all (\<lambda>a. length (snd a) = nrows df)
           [(''voice_label'', collect_all_many_shots (generate prompts) [])]"
proof -
  show "main_many_shots SYSTEM_INSTRUCTIONS generate df =
           ([prompts], setitems df [(''voice_label'', collect_all_many_shots (generate prompts) [])])"
    using lc bp by (simp add: main_many_shots_def Let_def)
  have "length prompts = length comments"
    using build_prompts_length [OF bp] by simp
  also have "\<dots> = nrows df"
    by (rule load_comments_length [OF wf lc])
  finally have "length (generate prompts) = nrows df"
    using paired by simp
  then show "list_all (\<lambda>a. length (snd a) = nrows df)
           [(''voice_label'', collect_all_many_shots (generate prompts) [])]"
    by (simp add: collect_all_many_shots_length)
qed

lemma many_shots_setitems:
  assumes "length labels = nrows df" and "list_all is_str labels"
  shows "setitems df [(name, labels)] =
           Inr (df\<lparr>columns := AList.update name labels (columns df)\<rparr>)"
proof -
  from assms(1) have "list_all (\<lambda>a. length (snd a) = nrows df) [(name, labels)]" by simp
  from setitems_same_length [OF this] assms(2) show ?thesis
    by (simp add: maybe_convert_objects_strs)
qed

text \<open>
  C1. The loop of each script appends one value to each of its lists per result. When
  the service answers every prompt with one result, a run that writes a table writes
  exactly as many rows as the input table has: the table handed to the writer keeps the
  length of the index, all its columns have that length, and the writer puts out the
  header and, for each index position, the row of the cells at that position. A
  few-shot run on a table whose comments are all strings does write a table; a
  zero-shot run on such a table writes one unless pandas raises \<^verbatim>\<open>OverflowError\<close>
  on a label that is an integer too large for a double.
\<close>

theorem output_has_one_row_per_input_row:
  assumes "wf_dataframe df"
    and "\<forall>prompts. length (generate prompts) = length prompts"
  shows
    "length (raw_json_outputs (collect_all_0_shot json_loads outs empty_collected)) = length outs \<and>
     length (indiv_list (collect_all_0_shot json_loads outs empty_collected)) = length outs \<and>
     length (coll_list (collect_all_0_shot json_loads outs empty_collected)) = length outs \<and>
     length (deliber_list (collect_all_0_shot json_loads outs empty_collected)) = length outs \<and>
     length (align_list (collect_all_0_shot json_loads outs empty_collected)) = length outs \<and>
     length (none_list (collect_all_0_shot json_loads outs empty_collected)) = length outs \<and>
     length (reasons (collect_all_0_shot json_loads outs empty_collected)) = length outs \<and>
     length (collect_all_many_shots outs []) = length outs \<and>
     length (rows (to_csv df)) = nrows df \<and>
     (\<forall>out. snd (main_0_shot SYSTEM_INSTRUCTIONS generate json_loads df) = Inr out \<longrightarrow>
        length (rows (to_csv out)) = nrows df \<and> nrows out = nrows df \<and> wf_dataframe out \<and>
        header (to_csv out) = column_names out \<and>
        (\<forall>i. i < nrows df \<longrightarrow> rows (to_csv out) ! i = map (\<lambda>c. snd c ! i) (columns out))) \<and>
     (\<forall>out. snd (main_many_shots SYSTEM_INSTRUCTIONS generate df) = Inr out \<longrightarrow>
        length (rows (to_csv out)) = nrows df \<and> nrows out = nrows df \<and> wf_dataframe out \<and>
        header (to_csv out) = column_names out \<and>
        (\<forall>i. i < nrows df \<longrightarrow> rows (to_csv out) ! i = map (\<lambda>c. snd c ! i) (columns out))) \<and>
     (\<forall>comments. load_comments df = Inr comments \<and> list_all is_str comments \<longrightarrow>
        (\<exists>out. snd (main_many_shots SYSTEM_INSTRUCTIONS generate df) = Inr out) \<and>
        ((\<exists>out. snd (main_0_shot SYSTEM_INSTRUCTIONS generate json_loads df) = Inr out) \<or>
         snd (main_0_shot SYSTEM_INSTRUCTIONS generate json_loads df) =
           Inl (OverflowError ''int too large to convert to float'')))"
proof -
  have written: "length (rows (to_csv out)) = nrows df \<and> nrows out = nrows df \<and>
      wf_dataframe out \<and> header (to_csv out) = column_names out \<and>
      (\<forall>i. i < nrows df \<longrightarrow> rows (to_csv out) ! i = map (\<lambda>c. snd c ! i) (columns out))"
    if "nrows out = nrows df" and "wf_dataframe out" for out
    using that by (simp add: to_csv_rows_length to_csv_header to_csv_row)
  have zero: "length (rows (to_csv out)) = nrows df \<and> nrows out = nrows df \<and>
      wf_dataframe out \<and> header (to_csv out) = column_names out \<and>
      (\<forall>i. i < nrows df \<longrightarrow> rows (to_csv out) ! i = map (\<lambda>c. snd c ! i) (columns out))"
    if run: "snd (main_0_shot SYSTEM_INSTRUCTIONS generate json_loads df) = Inr out" for out
  proof -
    from main_0_shot_Inr [OF run] obtain comments prompts
      where lc: "load_comments df = Inr comments"
        and bp: "build_prompts (prompt_0_shot SYSTEM_INSTRUCTIONS) comments [] = Inr prompts"
        and si: "setitems df (result_columns_0_shot
             (collect_all_0_shot json_loads (generate prompts) empty_collected)) = Inr out"
      by blast
    from setitems_paired [OF main_0_shot_paired(2) [OF assms lc bp] assms(1) si]
    have "nrows out = nrows df" and "wf_dataframe out" by simp_all
    then show ?thesis by (rule written)
  qed
  have many: "length (rows (to_csv out)) = nrows df \<and> nrows out = nrows df \<and>
      wf_dataframe out \<and> header (to_csv out) = column_names out \<and>
      (\<forall>i. i < nrows df \<longrightarrow> rows (to_csv out) ! i = map (\<lambda>c. snd c ! i) (columns out))"
    if run: "snd (main_many_shots SYSTEM_INSTRUCTIONS generate df) = Inr out" for out
  proof -
    from main_many_shots_Inr [OF run] obtain comments prompts
      where lc: "load_comments df = Inr comments"
        and bp: "build_prompts (prompt_many_shots SYSTEM_INSTRUCTIONS) comments [] = Inr prompts"
        and si: "setitems df [(''voice_label'', collect_all_many_shots (generate prompts) [])] =
                   Inr out"
      by blast
    from setitems_paired [OF main_many_shots_paired(2) [OF assms lc bp] assms(1) si]
    have "nrows out = nrows df" and "wf_dataframe out" by simp_all
    then show ?thesis by (rule written)
  qed
  have writes:
    "(\<exists>out. snd (main_many_shots SYSTEM_INSTRUCTIONS generate df) = Inr out) \<and>
     ((\<exists>out. snd (main_0_shot SYSTEM_INSTRUCTIONS generate json_loads df) = Inr out) \<or>
      snd (main_0_shot SYSTEM_INSTRUCTIONS generate json_loads df) =
        Inl (OverflowError ''int too large to convert to float''))"
    if lc: "load_comments df = Inr comments" and strs: "list_all is_str comments" for comments
  proof -
    from strs have "list_all (\<lambda>c. \<exists>p. prompt_0_shot SYSTEM_INSTRUCTIONS c = Inr p) comments"
      by (auto simp: list_all_iff dest: is_str_prompt_0_shot)
    from build_prompts_total [OF this, of "[]"] obtain ps
      where ps: "build_prompts (prompt_0_shot SYSTEM_INSTRUCTIONS) comments [] = Inr ps" ..
    from strs have "list_all (\<lambda>c. \<exists>p. prompt_many_shots SYSTEM_INSTRUCTIONS c = Inr p) comments"
      by (auto simp: list_all_iff dest: is_str_prompt_many_shots)
    from build_prompts_total [OF this, of "[]"] obtain qs
      where qs: "build_prompts (prompt_many_shots SYSTEM_INSTRUCTIONS) comments [] = Inr qs" ..
    note z = main_0_shot_paired [OF assms lc ps, of json_loads]
    note m = main_many_shots_paired [OF assms lc qs]
    from m(2) have "length (collect_all_many_shots (generate qs) []) = nrows df" by simp
    from many_shots_setitems [OF this collect_all_many_shots_strs] m(1)
    have "\<exists>out. snd (main_many_shots SYSTEM_INSTRUCTIONS generate df) = Inr out" by simp
    moreover from setitems_paired_outcome [OF z(2)] z(1)
    have "(\<exists>out. snd (main_0_shot SYSTEM_INSTRUCTIONS generate json_loads df) = Inr out) \<or>
      snd (main_0_shot SYSTEM_INSTRUCTIONS generate json_loads df) =
        Inl (OverflowError ''int too large to convert to float'')" by simp
    ultimately show ?thesis ..
  qed
  from collect_all_0_shot_lengths [of json_loads outs] collect_all_many_shots_length [of outs]
    to_csv_rows_length [of df] zero many writes
  show ?thesis by blast
qed

theorem output_has_one_row_per_input_row_witness:
  "wf_dataframe \<lparr>nrows = 2, columns = [(''id'', [PInt 1, PInt 2]), (''body_text'', [PStr ''hi'', np_nan])]\<rparr> \<and>
   (\<forall>prompts. length (canned_service \<lparr>outputs = [\<lparr>text_field = '' {} ''\<rparr>]\<rparr> prompts) = length prompts) \<and>
   snd (main_0_shot ''I'' (canned_service \<lparr>outputs = [\<lparr>text_field = '' {} ''\<rparr>]\<rparr>)
          (canned_parser [(''{}'', PDict [])])
          \<lparr>nrows = 2, columns = [(''id'', [PInt 1, PInt 2]), (''body_text'', [PStr ''hi'', np_nan])]\<rparr>) =
     Inr \<lparr>nrows = 2, columns =
       [(''id'', [PInt 1, PInt 2]), (''body_text'', [PStr ''hi'', np_nan]),
        (''voice_label_raw_json'', [PStr ''{}'', PStr ''{}'']),
        (''individual_voice'', [PNone, PNone]),
        (''collective_voice'', [PNone, PNone]),
        (''internal_deliberation'', [PNone, PNone]),
        (''align_with_company'', [PNone, PNone]),
        (''none_of_the_above'', [PNone, PNone]),
        (''reason'', [PStr [], PStr []])]\<rparr> \<and>
   length (rows (to_csv \<lparr>nrows = 2, columns =
       [(''id'', [PInt 1, PInt 2]), (''body_text'', [PStr ''hi'', np_nan]),
        (''voice_label_raw_json'', [PStr ''{}'', PStr ''{}'']),
        (''individual_voice'', [PNone, PNone]),
        (''collective_voice'', [PNone, PNone]),
        (''internal_deliberation'', [PNone, PNone]),
        (''align_with_company'', [PNone, PNone]),
        (''none_of_the_above'', [PNone, PNone]),
        (''reason'', [PStr [], PStr []])]\<rparr>)) = 2 \<and>
   load_comments \<lparr>nrows = 2, columns = [(''id'', [PInt 1, PInt 2]), (''body_text'', [PStr ''hi'', np_nan])]\<rparr> =
     Inr [PStr ''hi'', PStr []] \<and>
   list_all is_str [PStr ''hi'', PStr []] \<and>
   (\<exists>out. snd (main_many_shots ''I'' (canned_service \<lparr>outputs = [\<lparr>text_field = '' {} ''\<rparr>]\<rparr>)
          \<lparr>nrows = 2, columns = [(''id'', [PInt 1, PInt 2]), (''body_text'', [PStr ''hi'', np_nan])]\<rparr>) =
      Inr out)"
proof -
  let ?df = "\<lparr>nrows = 2, columns = [(''id'', [PInt 1, PInt 2]), (''body_text'', [PStr ''hi'', np_nan])]\<rparr>"
  let ?g = "canned_service \<lparr>outputs = [\<lparr>text_field = '' {} ''\<rparr>]\<rparr>"
  let ?p = "canned_parser [(''{}'', PDict [])]"
  let ?out = "\<lparr>nrows = 2, columns =
       [(''id'', [PInt 1, PInt 2]), (''body_text'', [PStr ''hi'', np_nan]),
        (''voice_label_raw_json'', [PStr ''{}'', PStr ''{}'']),
        (''individual_voice'', [PNone, PNone]),
        (''collective_voice'', [PNone, PNone]),
        (''internal_deliberation'', [PNone, PNone]),
        (''align_with_company'', [PNone, PNone]),
        (''none_of_the_above'', [PNone, PNone]),
        (''reason'', [PStr [], PStr []])]\<rparr>"
  have wf: "wf_dataframe ?df" by code_simp
  have paired: "\<forall>prompts. length (?g prompts) = length prompts"
    by (simp add: canned_service_def)
  have run: "snd (main_0_shot ''I'' ?g ?p ?df) = Inr ?out" by code_simp
  have lc: "load_comments ?df = Inr [PStr ''hi'', PStr []]" by code_simp
  have strs: "list_all is_str [PStr ''hi'', PStr []]" by simp
  note t = output_has_one_row_per_input_row [OF wf paired, of ?p "[]" "''I''"]
  from t run have "length (rows (to_csv ?out)) = nrows ?df" by blast
  then have len: "length (rows (to_csv ?out)) = 2" by simp
  from t lc strs
  have many: "\<exists>out. snd (main_many_shots ''I'' ?g ?df) = Inr out" by blast
  from wf paired run len lc strs many show ?thesis by (intro conjI)
qed

section \<open>The text column\<close>

lemma main_0_shot_no_column_error:
  assumes "TEXT_COLUMN \<in> set (column_names df)"
  shows "snd (main_0_shot SYSTEM_INSTRUCTIONS generate json_loads df) \<noteq>
           Inl (ValueError (''Column '' @ m))"
proof -
  from load_comments_present [OF assms] obtain col
    where lc: "load_comments df = Inr (map (fillna (PStr [])) col)" by blast
  show ?thesis
  proof (cases "build_prompts (prompt_0_shot SYSTEM_INSTRUCTIONS) (map (fillna (PStr [])) col) []")
    case (Inl e)
    from build_prompts_error [where mk = "prompt_0_shot SYSTEM_INSTRUCTIONS", OF _ Inl]
    obtain m' where "e = TypeError m'"
      using prompt_0_shot_error by blast
    with lc Inl show ?thesis by (simp add: main_0_shot_def)
  next
    case (Inr prompts)
    let ?as = "result_columns_0_shot
                 (collect_all_0_shot json_loads (generate prompts) empty_collected)"
    have "setitems df ?as \<noteq> Inl (ValueError (''Column '' @ m))"
    proof
      assume "setitems df ?as = Inl (ValueError (''Column '' @ m))"
      from setitems_error [OF this] show False by auto
    qed
    with lc Inr show ?thesis by (simp add: main_0_shot_def Let_def)
  qed
qed

lemma main_many_shots_no_column_error:
  assumes "TEXT_COLUMN \<in> set (column_names df)"
  shows "snd (main_many_shots SYSTEM_INSTRUCTIONS generate df) \<noteq>
           Inl (ValueError (''Column '' @ m))"
proof -
  from load_comments_present [OF assms] obtain col
    where lc: "load_comments df = Inr (map (fillna (PStr [])) col)" by blast
  show ?thesis
  proof (cases "build_prompts (prompt_many_shots SYSTEM_INSTRUCTIONS)
                  (map (fillna (PStr [])) col) []")
    case (Inl e)
    from build_prompts_error [where mk = "prompt_many_shots SYSTEM_INSTRUCTIONS", OF _ Inl]
    obtain m' where "e = TypeError m'"
      using prompt_many_shots_error by blast
    with lc Inl show ?thesis by (simp add: main_many_shots_def)
  next
    case (Inr prompts)
    let ?as = "[(''voice_label'', collect_all_many_shots (generate prompts) [])]"
    have "setitems df ?as \<noteq> Inl (ValueError (''Column '' @ m))"
    proof
      assume "setitems df ?as = Inl (ValueError (''Column '' @ m))"
      from setitems_error [OF this] show False by auto
    qed
    with lc Inr show ?thesis by (simp add: main_many_shots_def Let_def)
  qed
qed

text \<open>
  C2. On a table without the text column both scripts end with the \<^verbatim>\<open>ValueError\<close>
  whose message names the column \<^verbatim>\<open>body_text\<close>, and they have made no call to the
  service. On a table with the column neither script ends with a \<^verbatim>\<open>ValueError\<close>
  whose message starts with \<^verbatim>\<open>Column\<close>.
\<close>

theorem missing_text_column_is_fatal:
  "(TEXT_COLUMN \<notin> set (column_names df) \<longrightarrow>
      main_0_shot SYSTEM_INSTRUCTIONS generate json_loads df =
        ([], Inl (ValueError (column_not_found df))) \<and>
      main_many_shots SYSTEM_INSTRUCTIONS generate df =
        ([], Inl (ValueError (column_not_found df)))) \<and>
   (TEXT_COLUMN \<in> set (column_names df) \<longrightarrow>
      (\<forall>m. snd (main_0_shot SYSTEM_INSTRUCTIONS generate json_loads df) \<noteq>
             Inl (ValueError (''Column '' @ m))) \<and>
      (\<forall>m. snd (main_many_shots SYSTEM_INSTRUCTIONS generate df) \<noteq>
             Inl (ValueError (''Column '' @ m)))) \<and>
   column_not_found df =
     ''Column '' @ [CHR 0x27] @ ''body_text'' @ [CHR 0x27]
       @ '' not found in CSV. Available columns: '' @ repr_str_list (column_names df)"
  using main_0_shot_missing [of df SYSTEM_INSTRUCTIONS generate json_loads]
    main_many_shots_missing [of df SYSTEM_INSTRUCTIONS generate]
    main_0_shot_no_column_error [of df SYSTEM_INSTRUCTIONS generate json_loads]
    main_many_shots_no_column_error [of df SYSTEM_INSTRUCTIONS generate]
    column_not_found_prefix [of df]
  by blast

theorem missing_text_column_is_fatal_witness:
  "TEXT_COLUMN \<notin> set (column_names \<lparr>nrows = 1, columns = [(''id'', [PInt 7])]\<rparr>) \<and>
   main_0_shot ''I'' (canned_service \<lparr>outputs = []\<rparr>) (canned_parser [])
       \<lparr>nrows = 1, columns = [(''id'', [PInt 7])]\<rparr> =
     ([], Inl (ValueError (''Column '' @ [CHR 0x27] @ ''body_text'' @ [CHR 0x27]
             @ '' not found in CSV. Available columns: ['' @ [CHR 0x27] @ ''id'' @ [CHR 0x27] @ '']''))) \<and>
   main_many_shots ''I'' (canned_service \<lparr>outputs = []\<rparr>)
       \<lparr>nrows = 1, columns = [(''id'', [PInt 7])]\<rparr> =
     ([], Inl (ValueError (''Column '' @ [CHR 0x27] @ ''body_text'' @ [CHR 0x27]
             @ '' not found in CSV. Available columns: ['' @ [CHR 0x27] @ ''id'' @ [CHR 0x27] @ '']''))) \<and>
   TEXT_COLUMN \<in> set (column_names \<lparr>nrows = 1, columns = [(''body_text'', [PInt 7])]\<rparr>) \<and>
   snd (main_0_shot ''I'' (canned_service \<lparr>outputs = []\<rparr>) (canned_parser [])
       \<lparr>nrows = 1, columns = [(''body_text'', [PInt 7])]\<rparr>) \<noteq>
     Inl (ValueError (''Column '' @ ''x'')) \<and>
   snd (main_many_shots ''I'' (canned_service \<lparr>outputs = []\<rparr>)
       \<lparr>nrows = 1, columns = [(''body_text'', [PInt 7])]\<rparr>) \<noteq>
     Inl (ValueError (''Column '' @ ''x''))"
proof -
  let ?absent = "\<lparr>nrows = 1, columns = [(''id'', [PInt 7])]\<rparr>"
  let ?present = "\<lparr>nrows = 1, columns = [(''body_text'', [PInt 7])]\<rparr>"
  have absent: "TEXT_COLUMN \<notin> set (column_names ?absent)" by code_simp
  have present: "TEXT_COLUMN \<in> set (column_names ?present)" by code_simp
  have msg: "column_not_found ?absent =
      ''Column '' @ [CHR 0x27] @ ''body_text'' @ [CHR 0x27]
        @ '' not found in CSV. Available columns: ['' @ [CHR 0x27] @ ''id'' @ [CHR 0x27] @ '']''"
    by code_simp
  have A: "main_0_shot ''I'' (canned_service \<lparr>outputs = []\<rparr>) (canned_parser []) ?absent =
             ([], Inl (ValueError (column_not_found ?absent))) \<and>
           main_many_shots ''I'' (canned_service \<lparr>outputs = []\<rparr>) ?absent =
             ([], Inl (ValueError (column_not_found ?absent)))"
    by (rule missing_text_column_is_fatal [THEN conjunct1, THEN mp, OF absent])
  have P: "(\<forall>m. snd (main_0_shot ''I'' (canned_service \<lparr>outputs = []\<rparr>) (canned_parser [])
                     ?present) \<noteq> Inl (ValueError (''Column '' @ m))) \<and>
           (\<forall>m. snd (main_many_shots ''I'' (canned_service \<lparr>outputs = []\<rparr>) ?present) \<noteq>
                     Inl (ValueError (''Column '' @ m)))"
    by (rule missing_text_column_is_fatal [THEN conjunct2, THEN conjunct1, THEN mp, OF present])
  from A have A': "main_0_shot ''I'' (canned_service \<lparr>outputs = []\<rparr>) (canned_parser []) ?absent =
             ([], Inl (ValueError (''Column '' @ [CHR 0x27] @ ''body_text'' @ [CHR 0x27]
               @ '' not found in CSV. Available columns: ['' @ [CHR 0x27] @ ''id'' @ [CHR 0x27] @ '']''))) \<and>
           main_many_shots ''I'' (canned_service \<lparr>outputs = []\<rparr>) ?absent =
             ([], Inl (ValueError (''Column '' @ [CHR 0x27] @ ''body_text'' @ [CHR 0x27]
               @ '' not found in CSV. Available columns: ['' @ [CHR 0x27] @ ''id'' @ [CHR 0x27] @ '']'')))"
    by (simp only: msg)
  from A' P absent present show ?thesis by blast
qed

text \<open>
  C7. On a table with the text column the comment list is that column, cell by cell,
  with the empty string in the place of every missing cell: it has one entry per row of
  the table and no missing entry.
\<close>

theorem comments_are_the_text_column_without_nulls:
  assumes "wf_dataframe df" and "TEXT_COLUMN \<in> set (column_names df)"
  shows "\<exists>col comments.
           (TEXT_COLUMN, col) \<in> set (columns df) \<and> getitem df TEXT_COLUMN = Inr col \<and>
           load_comments df = Inr comments \<and>
           comments = map (\<lambda>x. if isna x then PStr [] else x) col \<and>
           length comments = nrows df \<and>
           (\<forall>c. c \<in> set comments \<longrightarrow> \<not> isna c)"
proof -
  from load_comments_present [OF assms(2)] obtain col
    where col: "getitem df TEXT_COLUMN = Inr col" "(TEXT_COLUMN, col) \<in> set (columns df)"
      and lc: "load_comments df = Inr (map (fillna (PStr [])) col)" by blast
  let ?comments = "map (\<lambda>x. if isna x then PStr [] else x) col"
  have eq: "map (fillna (PStr [])) col = ?comments"
    by (simp add: fillna_def)
  have len: "length ?comments = nrows df"
    using load_comments_length [OF assms(1) lc] by simp
  have nonull: "\<not> isna c" if "c \<in> set ?comments" for c
  proof -
    from that obtain x where "c = (if isna x then PStr [] else x)" by (auto simp only: set_map)
    then show ?thesis by (cases "isna x") simp_all
  qed
  show ?thesis
  proof (rule exI [of _ col], rule exI [of _ ?comments], intro conjI allI impI)
    show "(TEXT_COLUMN, col) \<in> set (columns df)" by (rule col(2))
    show "getitem df TEXT_COLUMN = Inr col" by (rule col(1))
    show "load_comments df = Inr ?comments" using lc by (simp only: eq)
    show "?comments = ?comments" by (rule refl)
    show "length ?comments = nrows df" by (rule len)
    show "\<not> isna c" if "c \<in> set ?comments" for c using that by (rule nonull)
  qed
qed

theorem comments_are_the_text_column_without_nulls_witness:
  "wf_dataframe \<lparr>nrows = 3, columns = [(''id'', [PInt 1, PInt 2, PInt 3]),
      (''body_text'', [PStr ''we strike'', np_nan, PNone])]\<rparr> \<and>
   TEXT_COLUMN \<in> set (column_names \<lparr>nrows = 3, columns = [(''id'', [PInt 1, PInt 2, PInt 3]),
      (''body_text'', [PStr ''we strike'', np_nan, PNone])]\<rparr>) \<and>
   load_comments \<lparr>nrows = 3, columns = [(''id'', [PInt 1, PInt 2, PInt 3]),
      (''body_text'', [PStr ''we strike'', np_nan, PNone])]\<rparr> =
     Inr [PStr ''we strike'', PStr [], PStr []]"
proof -
  let ?df = "\<lparr>nrows = 3, columns = [(''id'', [PInt 1, PInt 2, PInt 3]),
      (''body_text'', [PStr ''we strike'', np_nan, PNone])]\<rparr>"
  have wf: "wf_dataframe ?df" by code_simp
  have present: "TEXT_COLUMN \<in> set (column_names ?df)" by code_simp
  have getcol: "getitem ?df TEXT_COLUMN = Inr [PStr ''we strike'', np_nan, PNone]" by code_simp
  have m: "map (\<lambda>x. if isna x then PStr [] else x) [PStr ''we strike'', np_nan, PNone] =
             [PStr ''we strike'', PStr [], PStr []]" by code_simp
  from comments_are_the_text_column_without_nulls [OF wf present] obtain col comments
    where c1: "getitem ?df TEXT_COLUMN = Inr col"
      and c2: "load_comments ?df = Inr comments"
      and c3: "comments = map (\<lambda>x. if isna x then PStr [] else x) col"
    by blast
  from c1 getcol have "col = [PStr ''we strike'', np_nan, PNone]" by (simp only: sum.inject)
  with c3 m have "comments = [PStr ''we strike'', PStr [], PStr []]" by (simp only:)
  with c2 have "load_comments ?df = Inr [PStr ''we strike'', PStr [], PStr []]" by (simp only:)
  with wf present show ?thesis by (intro conjI)
qed

section \<open>Rows of the result\<close>

lemma collect_all_0_shot_nth:
  assumes "i < length outs"
  shows "raw_json_outputs (collect_all_0_shot json_loads outs empty_collected) ! i =
           hd (raw_json_outputs (collect_0_shot json_loads (outs ! i) empty_collected))"
    and "indiv_list (collect_all_0_shot json_loads outs empty_collected) ! i =
           hd (indiv_list (collect_0_shot json_loads (outs ! i) empty_collected))"
    and "coll_list (collect_all_0_shot json_loads outs empty_collected) ! i =
           hd (coll_list (collect_0_shot json_loads (outs ! i) empty_collected))"
    and "deliber_list (collect_all_0_shot json_loads outs empty_collected) ! i =
           hd (deliber_list (collect_0_shot json_loads (outs ! i) empty_collected))"
    and "align_list (collect_all_0_shot json_loads outs empty_collected) ! i =
           hd (align_list (collect_0_shot json_loads (outs ! i) empty_collected))"
    and "none_list (collect_all_0_shot json_loads outs empty_collected) ! i =
           hd (none_list (collect_0_shot json_loads (outs ! i) empty_collected))"
    and "reasons (collect_all_0_shot json_loads outs empty_collected) ! i =
           hd (reasons (collect_0_shot json_loads (outs ! i) empty_collected))"
  using assms by (simp_all add: collect_all_0_shot_map [of json_loads outs])

lemma row_0_shot_empty:
  "outputs out = [] \<Longrightarrow>
   collect_0_shot json_loads out empty_collected =
     \<lparr>raw_json_outputs = [PStr []], indiv_list = [PNone], coll_list = [PNone],
      deliber_list = [PNone], align_list = [PNone], none_list = [PNone],
      reasons = [PStr ''LLM returned empty output'']\<rparr>"
  by (simp add: collect_0_shot_empty empty_collected_def)

lemma row_0_shot_raises:
  "outputs out = c # cs \<Longrightarrow> json_loads (strip (text_field c)) = Inl e \<Longrightarrow>
   collect_0_shot json_loads out empty_collected =
     \<lparr>raw_json_outputs = [PStr (strip (text_field c))], indiv_list = [PNone],
      coll_list = [PNone], deliber_list = [PNone], align_list = [PNone], none_list = [PNone],
      reasons = [PStr (''JSON parse error: '' @ exception_str e)]\<rparr>"
  by (simp add: collect_0_shot_raises [where json_loads = json_loads] empty_collected_def)

lemma row_0_shot_dict:
  "outputs out = c # cs \<Longrightarrow> json_loads (strip (text_field c)) = Inr (PDict items) \<Longrightarrow>
   collect_0_shot json_loads out empty_collected =
     \<lparr>raw_json_outputs = [PStr (strip (text_field c))],
      indiv_list = [case map_of items ''individual_voice'' of None \<Rightarrow> PNone | Some v \<Rightarrow> v],
      coll_list = [case map_of items ''collective_voice'' of None \<Rightarrow> PNone | Some v \<Rightarrow> v],
      deliber_list = [case map_of items ''internal_deliberation'' of None \<Rightarrow> PNone | Some v \<Rightarrow> v],
      align_list = [case map_of items ''align_with_company'' of None \<Rightarrow> PNone | Some v \<Rightarrow> v],
      none_list = [case map_of items ''none_of_the_above'' of None \<Rightarrow> PNone | Some v \<Rightarrow> v],
      reasons = [case map_of items ''reason'' of None \<Rightarrow> PStr [] | Some v \<Rightarrow> v]\<rparr>"
  by (simp add: collect_0_shot_dict [where json_loads = json_loads] empty_collected_def)

lemma collect_all_many_shots_nth:
  "i < length outs \<Longrightarrow>
   collect_all_many_shots outs [] ! i = hd (collect_many_shots (outs ! i) [])"
  by (simp add: collect_all_many_shots_map)


text \<open>
  C3. Zero-shot: when the text generated for row \<open>i\<close> makes \<^verbatim>\<open>json.loads\<close> raise, the
  five labels of that row are \<^verbatim>\<open>None\<close>, its reason is \<^verbatim>\<open>JSON parse error:\<close> followed
  by the text of the exception, and the loop still leaves one entry per result in every
  list.
\<close>

theorem parse_failure_gives_null_labels:
  assumes "i < length outs"
    and "outputs (outs ! i) = c # cs"
    and "json_loads (strip (text_field c)) = Inl e"
  shows "raw_json_outputs (collect_all_0_shot json_loads outs empty_collected) ! i =
           PStr (strip (text_field c)) \<and>
         indiv_list (collect_all_0_shot json_loads outs empty_collected) ! i = PNone \<and>
         coll_list (collect_all_0_shot json_loads outs empty_collected) ! i = PNone \<and>
         deliber_list (collect_all_0_shot json_loads outs empty_collected) ! i = PNone \<and>
         align_list (collect_all_0_shot json_loads outs empty_collected) ! i = PNone \<and>
         none_list (collect_all_0_shot json_loads outs empty_collected) ! i = PNone \<and>
         reasons (collect_all_0_shot json_loads outs empty_collected) ! i =
           PStr (''JSON parse error: '' @ exception_str e) \<and>
         length (indiv_list (collect_all_0_shot json_loads outs empty_collected)) = length outs \<and>
         length (coll_list (collect_all_0_shot json_loads outs empty_collected)) = length outs \<and>
         length (deliber_list (collect_all_0_shot json_loads outs empty_collected)) = length outs \<and>
         length (align_list (collect_all_0_shot json_loads outs empty_collected)) = length outs \<and>
         length (none_list (collect_all_0_shot json_loads outs empty_collected)) = length outs \<and>
         length (reasons (collect_all_0_shot json_loads outs empty_collected)) = length outs"
proof -
  note row = row_0_shot_raises [where json_loads = json_loads, OF assms(2) assms(3)]
  note nth = collect_all_0_shot_nth [OF assms(1), of json_loads]
  have "raw_json_outputs (collect_all_0_shot json_loads outs empty_collected) ! i =
          PStr (strip (text_field c))"
    by (simp add: nth(1) row)
  moreover have "indiv_list (collect_all_0_shot json_loads outs empty_collected) ! i = PNone"
    by (simp add: nth(2) row)
  moreover have "coll_list (collect_all_0_shot json_loads outs empty_collected) ! i = PNone"
    by (simp add: nth(3) row)
  moreover have "deliber_list (collect_all_0_shot json_loads outs empty_collected) ! i = PNone"
    by (simp add: nth(4) row)
  moreover have "align_list (collect_all_0_shot json_loads outs empty_collected) ! i = PNone"
    by (simp add: nth(5) row)
  moreover have "none_list (collect_all_0_shot json_loads outs empty_collected) ! i = PNone"
    by (simp add: nth(6) row)
  moreover have "reasons (collect_all_0_shot json_loads outs empty_collected) ! i =
          PStr (''JSON parse error: '' @ exception_str e)"
    by (simp only: nth(7) row collected.simps list.sel)
  ultimately show ?thesis
    using collect_all_0_shot_lengths [of json_loads outs] by blast
qed

theorem parse_failure_gives_null_labels_witness:
  "(1::nat) < length [\<lparr>outputs = []\<rparr>, \<lparr>outputs = [\<lparr>text_field = '' Collective ''\<rparr>]\<rparr>, \<lparr>outputs = []\<rparr>] \<and>
   outputs ([\<lparr>outputs = []\<rparr>, \<lparr>outputs = [\<lparr>text_field = '' Collective ''\<rparr>]\<rparr>, \<lparr>outputs = []\<rparr>] ! 1) =
     \<lparr>text_field = '' Collective ''\<rparr> # [] \<and>
   canned_parser [] (strip (text_field \<lparr>text_field = '' Collective ''\<rparr>)) =
     Inl (JSONDecodeError ''Expecting value: line 1 column 1 (char 0)'') \<and>
   indiv_list (collect_all_0_shot (canned_parser [])
       [\<lparr>outputs = []\<rparr>, \<lparr>outputs = [\<lparr>text_field = '' Collective ''\<rparr>]\<rparr>, \<lparr>outputs = []\<rparr>]
       empty_collected) ! 1 = PNone \<and>
   reasons (collect_all_0_shot (canned_parser [])
       [\<lparr>outputs = []\<rparr>, \<lparr>outputs = [\<lparr>text_field = '' Collective ''\<rparr>]\<rparr>, \<lparr>outputs = []\<rparr>]
       empty_collected) ! 1 =
     PStr ''JSON parse error: Expecting value: line 1 column 1 (char 0)'' \<and>
   length (reasons (collect_all_0_shot (canned_parser [])
       [\<lparr>outputs = []\<rparr>, \<lparr>outputs = [\<lparr>text_field = '' Collective ''\<rparr>]\<rparr>, \<lparr>outputs = []\<rparr>]
       empty_collected)) = 3"
proof -
  let ?outs = "[\<lparr>outputs = []\<rparr>, \<lparr>outputs = [\<lparr>text_field = '' Collective ''\<rparr>]\<rparr>, \<lparr>outputs = []\<rparr>]"
  have h1: "(1::nat) < length ?outs" by simp
  have h2: "outputs (?outs ! 1) = \<lparr>text_field = '' Collective ''\<rparr> # []" by simp
  have h3: "canned_parser [] (strip (text_field \<lparr>text_field = '' Collective ''\<rparr>)) =
              Inl (JSONDecodeError ''Expecting value: line 1 column 1 (char 0)'')"
    by (simp add: canned_parser_def)
  note t = parse_failure_gives_null_labels [where json_loads = "canned_parser []", OF h1 h2 h3]
  have a: "indiv_list (collect_all_0_shot (canned_parser []) ?outs empty_collected) ! 1 = PNone"
    using t by simp
  have b: "reasons (collect_all_0_shot (canned_parser []) ?outs empty_collected) ! 1 =
             PStr ''JSON parse error: Expecting value: line 1 column 1 (char 0)''"
    using t by simp
  have c: "length (reasons (collect_all_0_shot (canned_parser []) ?outs empty_collected)) = 3"
    using t by simp
  from h1 h2 h3 a b c show ?thesis by (intro conjI)
qed

text \<open>
  C4. A result without generated content does not end the loop. Zero-shot: the five
  labels of that row are \<^verbatim>\<open>None\<close> and its reason is the fixed text
  \<^verbatim>\<open>LLM returned empty output\<close>. Few-shot: its label is the fixed text
  \<^verbatim>\<open>ERROR:EMPTY_OUTPUT\<close>. Every list still gets one entry per result.
\<close>

theorem empty_output_gives_sentinel:
  assumes "i < length outs" and "outputs (outs ! i) = []"
  shows "raw_json_outputs (collect_all_0_shot json_loads outs empty_collected) ! i = PStr [] \<and>
         indiv_list (collect_all_0_shot json_loads outs empty_collected) ! i = PNone \<and>
         coll_list (collect_all_0_shot json_loads outs empty_collected) ! i = PNone \<and>
         deliber_list (collect_all_0_shot json_loads outs empty_collected) ! i = PNone \<and>
         align_list (collect_all_0_shot json_loads outs empty_collected) ! i = PNone \<and>
         none_list (collect_all_0_shot json_loads outs empty_collected) ! i = PNone \<and>
         reasons (collect_all_0_shot json_loads outs empty_collected) ! i =
           PStr ''LLM returned empty output'' \<and>
         collect_all_many_shots outs [] ! i = PStr ''ERROR:EMPTY_OUTPUT'' \<and>
         length (indiv_list (collect_all_0_shot json_loads outs empty_collected)) = length outs \<and>
         length (coll_list (collect_all_0_shot json_loads outs empty_collected)) = length outs \<and>
         length (deliber_list (collect_all_0_shot json_loads outs empty_collected)) = length outs \<and>
         length (align_list (collect_all_0_shot json_loads outs empty_collected)) = length outs \<and>
         length (none_list (collect_all_0_shot json_loads outs empty_collected)) = length outs \<and>
         length (reasons (collect_all_0_shot json_loads outs empty_collected)) = length outs \<and>
         length (collect_all_many_shots outs []) = length outs"
proof -
  note row = row_0_shot_empty [OF assms(2), of json_loads]
  note nth = collect_all_0_shot_nth [OF assms(1), of json_loads]
  have "raw_json_outputs (collect_all_0_shot json_loads outs empty_collected) ! i = PStr []"
    by (simp add: nth(1) row)
  moreover have "indiv_list (collect_all_0_shot json_loads outs empty_collected) ! i = PNone"
    by (simp add: nth(2) row)
  moreover have "coll_list (collect_all_0_shot json_loads outs empty_collected) ! i = PNone"
    by (simp add: nth(3) row)
  moreover have "deliber_list (collect_all_0_shot json_loads outs empty_collected) ! i = PNone"
    by (simp add: nth(4) row)
  moreover have "align_list (collect_all_0_shot json_loads outs empty_collected) ! i = PNone"
    by (simp add: nth(5) row)
  moreover have "none_list (collect_all_0_shot json_loads outs empty_collected) ! i = PNone"
    by (simp add: nth(6) row)
  moreover have "reasons (collect_all_0_shot json_loads outs empty_collected) ! i =
          PStr ''LLM returned empty output''"
    by (simp only: nth(7) row collected.simps list.sel)
  moreover have "collect_all_many_shots outs [] ! i = PStr ''ERROR:EMPTY_OUTPUT''"
    by (simp only: collect_all_many_shots_nth [OF assms(1)] collect_many_shots_def assms(2)
          list.case append_Nil list.sel)
  moreover note collect_all_0_shot_lengths [of json_loads outs]
    collect_all_many_shots_length [of outs]
  ultimately show ?thesis by blast
qed

theorem empty_output_gives_sentinel_witness:
  "(0::nat) < length [\<lparr>outputs = []\<rparr>, \<lparr>outputs = [\<lparr>text_field = ''{}''\<rparr>]\<rparr>] \<and>
   outputs ([\<lparr>outputs = []\<rparr>, \<lparr>outputs = [\<lparr>text_field = ''{}''\<rparr>]\<rparr>] ! 0) = [] \<and>
   indiv_list (collect_all_0_shot (canned_parser [(''{}'', PDict [])])
       [\<lparr>outputs = []\<rparr>, \<lparr>outputs = [\<lparr>text_field = ''{}''\<rparr>]\<rparr>] empty_collected) ! 0 = PNone \<and>
   reasons (collect_all_0_shot (canned_parser [(''{}'', PDict [])])
       [\<lparr>outputs = []\<rparr>, \<lparr>outputs = [\<lparr>text_field = ''{}''\<rparr>]\<rparr>] empty_collected) ! 0 =
     PStr ''LLM returned empty output'' \<and>
   collect_all_many_shots [\<lparr>outputs = []\<rparr>, \<lparr>outputs = [\<lparr>text_field = ''{}''\<rparr>]\<rparr>] [] ! 0 =
     PStr ''ERROR:EMPTY_OUTPUT'' \<and>
   length (collect_all_many_shots [\<lparr>outputs = []\<rparr>, \<lparr>outputs = [\<lparr>text_field = ''{}''\<rparr>]\<rparr>] []) = 2"
proof -
  let ?outs = "[\<lparr>outputs = []\<rparr>, \<lparr>outputs = [\<lparr>text_field = ''{}''\<rparr>]\<rparr>]"
  have h1: "(0::nat) < length ?outs" by simp
  have h2: "outputs (?outs ! 0) = []" by simp
  note t = empty_output_gives_sentinel
             [where json_loads = "canned_parser [(''{}'', PDict [])]", OF h1 h2]
  have a: "indiv_list (collect_all_0_shot (canned_parser [(''{}'', PDict [])]) ?outs
             empty_collected) ! 0 = PNone"
    using t by simp
  have b: "reasons (collect_all_0_shot (canned_parser [(''{}'', PDict [])]) ?outs
             empty_collected) ! 0 = PStr ''LLM returned empty output''"
    using t by simp
  have c: "collect_all_many_shots ?outs [] ! 0 = PStr ''ERROR:EMPTY_OUTPUT''"
    using t by simp
  have d: "length (collect_all_many_shots ?outs []) = 2"
    using t by simp
  from h1 h2 a b c d show ?thesis by (intro conjI)
qed

text \<open>
  C5. Zero-shot: when the text generated for row \<open>i\<close> parses as a dictionary that has
  a boolean under each of the five label names and a string under \<^verbatim>\<open>reason\<close>, the
  five labels written for the row are these booleans and the reason is that string.
\<close>

theorem schema_object_gives_boolean_labels:
  assumes "i < length outs"
    and "outputs (outs ! i) = c # cs"
    and "json_loads (strip (text_field c)) = Inr (PDict items)"
    and "map_of items ''individual_voice'' = Some (PBool b1)"
    and "map_of items ''collective_voice'' = Some (PBool b2)"
    and "map_of items ''internal_deliberation'' = Some (PBool b3)"
    and "map_of items ''align_with_company'' = Some (PBool b4)"
    and "map_of items ''none_of_the_above'' = Some (PBool b5)"
    and "map_of items ''reason'' = Some (PStr r)"
  shows "indiv_list (collect_all_0_shot json_loads outs empty_collected) ! i = PBool b1 \<and>
         coll_list (collect_all_0_shot json_loads outs empty_collected) ! i = PBool b2 \<and>
         deliber_list (collect_all_0_shot json_loads outs empty_collected) ! i = PBool b3 \<and>
         align_list (collect_all_0_shot json_loads outs empty_collected) ! i = PBool b4 \<and>
         none_list (collect_all_0_shot json_loads outs empty_collected) ! i = PBool b5 \<and>
         reasons (collect_all_0_shot json_loads outs empty_collected) ! i = PStr r"
proof -
  note row = row_0_shot_dict [where json_loads = json_loads, OF assms(2) assms(3)]
  note nth = collect_all_0_shot_nth [OF assms(1), of json_loads]
  have "indiv_list (collect_all_0_shot json_loads outs empty_collected) ! i = PBool b1"
    by (simp add: nth(2) row assms(4))
  moreover have "coll_list (collect_all_0_shot json_loads outs empty_collected) ! i = PBool b2"
    by (simp add: nth(3) row assms(5))
  moreover have "deliber_list (collect_all_0_shot json_loads outs empty_collected) ! i = PBool b3"
    by (simp add: nth(4) row assms(6))
  moreover have "align_list (collect_all_0_shot json_loads outs empty_collected) ! i = PBool b4"
    by (simp add: nth(5) row assms(7))
  moreover have "none_list (collect_all_0_shot json_loads outs empty_collected) ! i = PBool b5"
    by (simp add: nth(6) row assms(8))
  moreover have "reasons (collect_all_0_shot json_loads outs empty_collected) ! i = PStr r"
    by (simp add: nth(7) row assms(9))
  ultimately show ?thesis by blast
qed


theorem schema_object_gives_boolean_labels_witness:
  \<open>(0::nat) < length [\<lparr>outputs = [\<lparr>text_field = ''{"individual_voice": false, "collective_voice": true, "internal_deliberation": false, "align_with_company": false, "none_of_the_above": false, "reason": "we"}''\<rparr>]\<rparr>] \<and>
   outputs ([\<lparr>outputs = [\<lparr>text_field = ''{"individual_voice": false, "collective_voice": true, "internal_deliberation": false, "align_with_company": false, "none_of_the_above": false, "reason": "we"}''\<rparr>]\<rparr>] ! 0) = \<lparr>text_field = ''{"individual_voice": false, "collective_voice": true, "internal_deliberation": false, "align_with_company": false, "none_of_the_above": false, "reason": "we"}''\<rparr> # [] \<and>
   (canned_parser [(''{"individual_voice": false, "collective_voice": true, "internal_deliberation": false, "align_with_company": false, "none_of_the_above": false, "reason": "we"}'', PDict [(''individual_voice'', PBool False), (''collective_voice'', PBool True),
        (''internal_deliberation'', PBool False), (''align_with_company'', PBool False),
        (''none_of_the_above'', PBool False), (''reason'', PStr ''we'')])]) (strip (text_field \<lparr>text_field = ''{"individual_voice": false, "collective_voice": true, "internal_deliberation": false, "align_with_company": false, "none_of_the_above": false, "reason": "we"}''\<rparr>)) = Inr (PDict [(''individual_voice'', PBool False), (''collective_voice'', PBool True),
        (''internal_deliberation'', PBool False), (''align_with_company'', PBool False),
        (''none_of_the_above'', PBool False), (''reason'', PStr ''we'')]) \<and>
   map_of [(''individual_voice'', PBool False), (''collective_voice'', PBool True),
        (''internal_deliberation'', PBool False), (''align_with_company'', PBool False),
        (''none_of_the_above'', PBool False), (''reason'', PStr ''we'')] ''individual_voice'' = Some (PBool False) \<and>
   map_of [(''individual_voice'', PBool False), (''collective_voice'', PBool True),
        (''internal_deliberation'', PBool False), (''align_with_company'', PBool False),
        (''none_of_the_above'', PBool False), (''reason'', PStr ''we'')] ''collective_voice'' = Some (PBool True) \<and>
   map_of [(''individual_voice'', PBool False), (''collective_voice'', PBool True),
        (''internal_deliberation'', PBool False), (''align_with_company'', PBool False),
        (''none_of_the_above'', PBool False), (''reason'', PStr ''we'')] ''internal_deliberation'' = Some (PBool False) \<and>
   map_of [(''individual_voice'', PBool False), (''collective_voice'', PBool True),
        (''internal_deliberation'', PBool False), (''align_with_company'', PBool False),
        (''none_of_the_above'', PBool False), (''reason'', PStr ''we'')] ''align_with_company'' = Some (PBool False) \<and>
   map_of [(''individual_voice'', PBool False), (''collective_voice'', PBool True),
        (''internal_deliberation'', PBool False), (''align_with_company'', PBool False),
        (''none_of_the_above'', PBool False), (''reason'', PStr ''we'')] ''none_of_the_above'' = Some (PBool False) \<and>
   map_of [(''individual_voice'', PBool False), (''collective_voice'', PBool True),
        (''internal_deliberation'', PBool False), (''align_with_company'', PBool False),
        (''none_of_the_above'', PBool False), (''reason'', PStr ''we'')] ''reason'' = Some (PStr ''we'') \<and>
   indiv_list (collect_all_0_shot (canned_parser [(''{"individual_voice": false, "collective_voice": true, "internal_deliberation": false, "align_with_company": false, "none_of_the_above": false, "reason": "we"}'', PDict [(''individual_voice'', PBool False), (''collective_voice'', PBool True),
        (''internal_deliberation'', PBool False), (''align_with_company'', PBool False),
        (''none_of_the_above'', PBool False), (''reason'', PStr ''we'')])]) [\<lparr>outputs = [\<lparr>text_field = ''{"individual_voice": false, "collective_voice": true, "internal_deliberation": false, "align_with_company": false, "none_of_the_above": false, "reason": "we"}''\<rparr>]\<rparr>] empty_collected) ! 0 = PBool False \<and>
   coll_list (collect_all_0_shot (canned_parser [(''{"individual_voice": false, "collective_voice": true, "internal_deliberation": false, "align_with_company": false, "none_of_the_above": false, "reason": "we"}'', PDict [(''individual_voice'', PBool False), (''collective_voice'', PBool True),
        (''internal_deliberation'', PBool False), (''align_with_company'', PBool False),
        (''none_of_the_above'', PBool False), (''reason'', PStr ''we'')])]) [\<lparr>outputs = [\<lparr>text_field = ''{"individual_voice": false, "collective_voice": true, "internal_deliberation": false, "align_with_company": false, "none_of_the_above": false, "reason": "we"}''\<rparr>]\<rparr>] empty_collected) ! 0 = PBool True \<and>
   reasons (collect_all_0_shot (canned_parser [(''{"individual_voice": false, "collective_voice": true, "internal_deliberation": false, "align_with_company": false, "none_of_the_above": false, "reason": "we"}'', PDict [(''individual_voice'', PBool False), (''collective_voice'', PBool True),
        (''internal_deliberation'', PBool False), (''align_with_company'', PBool False),
        (''none_of_the_above'', PBool False), (''reason'', PStr ''we'')])]) [\<lparr>outputs = [\<lparr>text_field = ''{"individual_voice": false, "collective_voice": true, "internal_deliberation": false, "align_with_company": false, "none_of_the_above": false, "reason": "we"}''\<rparr>]\<rparr>] empty_collected) ! 0 = PStr ''we''\<close>
proof -
  let ?js = \<open>''{"individual_voice": false, "collective_voice": true, "internal_deliberation": false, "align_with_company": false, "none_of_the_above": false, "reason": "we"}''\<close>
  let ?items = \<open>[(''individual_voice'', PBool False), (''collective_voice'', PBool True),
        (''internal_deliberation'', PBool False), (''align_with_company'', PBool False),
        (''none_of_the_above'', PBool False), (''reason'', PStr ''we'')]\<close>
  let ?p = \<open>canned_parser [(?js, PDict ?items)]\<close>
  let ?outs = \<open>[\<lparr>outputs = [\<lparr>text_field = ?js\<rparr>]\<rparr>]\<close>
  have h1: \<open>(0::nat) < length ?outs\<close> by simp
  have h2: \<open>outputs (?outs ! 0) = \<lparr>text_field = ?js\<rparr> # []\<close> by simp
  have h3: \<open>?p (strip (text_field \<lparr>text_field = ?js\<rparr>)) = Inr (PDict ?items)\<close> by code_simp
  have h4: \<open>map_of ?items ''individual_voice'' = Some (PBool False)\<close> by code_simp
  have h5: \<open>map_of ?items ''collective_voice'' = Some (PBool True)\<close> by code_simp
  have h6: \<open>map_of ?items ''internal_deliberation'' = Some (PBool False)\<close> by code_simp
  have h7: \<open>map_of ?items ''align_with_company'' = Some (PBool False)\<close> by code_simp
  have h8: \<open>map_of ?items ''none_of_the_above'' = Some (PBool False)\<close> by code_simp
  have h9: \<open>map_of ?items ''reason'' = Some (PStr ''we'')\<close> by code_simp
  note t = schema_object_gives_boolean_labels
             [where json_loads = ?p, OF h1 h2 h3 h4 h5 h6 h7 h8 h9]
  have a: \<open>indiv_list (collect_all_0_shot ?p ?outs empty_collected) ! 0 = PBool False\<close>
    using t by (rule conjunct1)
  have b: \<open>coll_list (collect_all_0_shot ?p ?outs empty_collected) ! 0 = PBool True\<close>
    using t by (rule conjunct1 [OF conjunct2])
  have c: \<open>reasons (collect_all_0_shot ?p ?outs empty_collected) ! 0 = PStr ''we''\<close>
    using t by (elim conjE)
  from h1 h2 h3 h4 h5 h6 h7 h8 h9 a b c show ?thesis by (intro conjI)
qed

lemma setitem_getitem:
  "setitem df name vals = Inr out \<Longrightarrow>
   \<exists>arr. maybe_convert_objects vals = Inr arr \<and> getitem out name = Inr arr"
  by (auto simp: setitem_def getitem_def update_conv' split: if_splits sum.splits)

lemma setitems_single_getitem:
  assumes "setitems df [(name, vals)] = Inr out" and "list_all is_str vals"
  shows "getitem out name = Inr vals"
proof -
  from assms(1) have "setitem df name vals = Inr out"
    by (auto split: sum.splits)
  from setitem_getitem [OF this] maybe_convert_objects_strs [OF assms(2)]
  show ?thesis by auto
qed

text \<open>
  C8. Few-shot: the loop has no parser; the label of a result with generated content is
  the text of its first completion, stripped of leading and trailing white space. In the
  table a run writes, the column \<^verbatim>\<open>voice_label\<close> holds that string at the row of the
  result.
\<close>

theorem few_shot_label_is_trimmed_text:
  assumes "i < length outs" and "outputs (outs ! i) = c # cs"
  shows "collect_all_many_shots outs [] ! i = PStr (strip (text_field c)) \<and>
         length (collect_all_many_shots outs []) = length outs \<and>
         (\<forall>out prompts.
            main_many_shots SYSTEM_INSTRUCTIONS generate df = ([prompts], Inr out) \<and>
            generate prompts = outs \<longrightarrow>
            (\<exists>labels. getitem out ''voice_label'' = Inr labels \<and>
               labels ! i = PStr (strip (text_field c))))"
proof -
  have label: "collect_all_many_shots outs [] ! i = PStr (strip (text_field c))"
    by (simp only: collect_all_many_shots_nth [OF assms(1)] collect_many_shots_def assms(2)
          list.case append_Nil list.sel)
  have "\<exists>labels. getitem out ''voice_label'' = Inr labels \<and>
          labels ! i = PStr (strip (text_field c))"
    if run: "main_many_shots SYSTEM_INSTRUCTIONS generate df = ([prompts], Inr out)"
      and gen: "generate prompts = outs" for out prompts
  proof -
    from run have "snd (main_many_shots SYSTEM_INSTRUCTIONS generate df) = Inr out" by simp
    from main_many_shots_Inr [OF this] obtain prompts'
      where "fst (main_many_shots SYSTEM_INSTRUCTIONS generate df) = [prompts']"
        and "setitems df [(''voice_label'', collect_all_many_shots (generate prompts') [])] =
               Inr out"
      by blast
    with run gen
    have "setitems df [(''voice_label'', collect_all_many_shots outs [])] = Inr out"
      by simp
    then have "getitem out ''voice_label'' = Inr (collect_all_many_shots outs [])"
      using collect_all_many_shots_strs [of outs] by (rule setitems_single_getitem)
    with label show ?thesis by blast
  qed
  with label collect_all_many_shots_length [of outs] show ?thesis by blast
qed

theorem few_shot_label_is_trimmed_text_witness:
  "(0::nat) < length [\<lparr>outputs = [\<lparr>text_field = '' Collective Voice ''\<rparr>]\<rparr>] \<and>
   outputs ([\<lparr>outputs = [\<lparr>text_field = '' Collective Voice ''\<rparr>]\<rparr>] ! 0) =
     \<lparr>text_field = '' Collective Voice ''\<rparr> # [] \<and>
   collect_all_many_shots [\<lparr>outputs = [\<lparr>text_field = '' Collective Voice ''\<rparr>]\<rparr>] [] ! 0 =
     PStr ''Collective Voice'' \<and>
   main_many_shots ''I'' (canned_service \<lparr>outputs = [\<lparr>text_field = '' Collective Voice ''\<rparr>]\<rparr>)
          \<lparr>nrows = 1, columns = [(''body_text'', [PStr ''I do not support this strike.''])]\<rparr> =
     ([[''I\<newline>\<newline>Comment:\<newline>I do not support this strike.\<newline>\<newline>Label:'']],
      Inr \<lparr>nrows = 1, columns = [(''body_text'', [PStr ''I do not support this strike.'']),
            (''voice_label'', [PStr ''Collective Voice''])]\<rparr>) \<and>
   canned_service \<lparr>outputs = [\<lparr>text_field = '' Collective Voice ''\<rparr>]\<rparr>
       [''I\<newline>\<newline>Comment:\<newline>I do not support this strike.\<newline>\<newline>Label:''] =
     [\<lparr>outputs = [\<lparr>text_field = '' Collective Voice ''\<rparr>]\<rparr>] \<and>
   getitem \<lparr>nrows = 1, columns = [(''body_text'', [PStr ''I do not support this strike.'']),
            (''voice_label'', [PStr ''Collective Voice''])]\<rparr> ''voice_label'' =
     Inr [PStr ''Collective Voice'']"
proof -
  let ?outs = "[\<lparr>outputs = [\<lparr>text_field = '' Collective Voice ''\<rparr>]\<rparr>]"
  let ?g = "canned_service \<lparr>outputs = [\<lparr>text_field = '' Collective Voice ''\<rparr>]\<rparr>"
  let ?df = "\<lparr>nrows = 1, columns = [(''body_text'', [PStr ''I do not support this strike.''])]\<rparr>"
  let ?out = "\<lparr>nrows = 1, columns = [(''body_text'', [PStr ''I do not support this strike.'']),
            (''voice_label'', [PStr ''Collective Voice''])]\<rparr>"
  let ?prompts = "[''I\<newline>\<newline>Comment:\<newline>I do not support this strike.\<newline>\<newline>Label:'']"
  have h1: "(0::nat) < length ?outs" by simp
  have h2: "outputs (?outs ! 0) = \<lparr>text_field = '' Collective Voice ''\<rparr> # []" by simp
  have s: "strip (text_field \<lparr>text_field = '' Collective Voice ''\<rparr>) = ''Collective Voice''"
    by code_simp
  have run: "main_many_shots ''I'' ?g ?df = ([?prompts], Inr ?out)" by code_simp
  have gen: "?g ?prompts = ?outs" by code_simp
  note t = few_shot_label_is_trimmed_text [OF h1 h2, of "''I''" ?g ?df]
  from t have a: "collect_all_many_shots ?outs [] ! 0 = PStr ''Collective Voice''"
    by (simp only: s)
  from t run gen obtain labels
    where g: "getitem ?out ''voice_label'' = Inr labels"
      and l: "labels ! 0 = PStr (strip (text_field \<lparr>text_field = '' Collective Voice ''\<rparr>))"
    by blast
  have g': "getitem ?out ''voice_label'' = Inr [PStr ''Collective Voice'']" by code_simp
  from h1 h2 a run gen g' show ?thesis by (intro conjI)
qed

text \<open>
  C10, as amended. Zero-shot: when the text generated for row \<open>i\<close> parses as a
  dictionary, no error text is recorded: each label of the row is the value the
  dictionary has under the label's name, or \<^verbatim>\<open>None\<close> when it has none, and the reason
  is the value under \<^verbatim>\<open>reason\<close>, or the empty string when it has none.
\<close>

theorem parsed_object_fields_default:
  assumes "i < length outs"
    and "outputs (outs ! i) = c # cs"
    and "json_loads (strip (text_field c)) = Inr (PDict items)"
  shows "indiv_list (collect_all_0_shot json_loads outs empty_collected) ! i =
           (case map_of items ''individual_voice'' of None \<Rightarrow> PNone | Some v \<Rightarrow> v) \<and>
         coll_list (collect_all_0_shot json_loads outs empty_collected) ! i =
           (case map_of items ''collective_voice'' of None \<Rightarrow> PNone | Some v \<Rightarrow> v) \<and>
         deliber_list (collect_all_0_shot json_loads outs empty_collected) ! i =
           (case map_of items ''internal_deliberation'' of None \<Rightarrow> PNone | Some v \<Rightarrow> v) \<and>
         align_list (collect_all_0_shot json_loads outs empty_collected) ! i =
           (case map_of items ''align_with_company'' of None \<Rightarrow> PNone | Some v \<Rightarrow> v) \<and>
         none_list (collect_all_0_shot json_loads outs empty_collected) ! i =
           (case map_of items ''none_of_the_above'' of None \<Rightarrow> PNone | Some v \<Rightarrow> v) \<and>
         reasons (collect_all_0_shot json_loads outs empty_collected) ! i =
           (case map_of items ''reason'' of None \<Rightarrow> PStr [] | Some v \<Rightarrow> v)"
proof -
  note row = row_0_shot_dict [where json_loads = json_loads, OF assms(2) assms(3)]
  note nth = collect_all_0_shot_nth [OF assms(1), of json_loads]
  have "indiv_list (collect_all_0_shot json_loads outs empty_collected) ! i =
          (case map_of items ''individual_voice'' of None \<Rightarrow> PNone | Some v \<Rightarrow> v)"
    by (simp only: nth(2) row collected.simps list.sel)
  moreover have "coll_list (collect_all_0_shot json_loads outs empty_collected) ! i =
          (case map_of items ''collective_voice'' of None \<Rightarrow> PNone | Some v \<Rightarrow> v)"
    by (simp only: nth(3) row collected.simps list.sel)
  moreover have "deliber_list (collect_all_0_shot json_loads outs empty_collected) ! i =
          (case map_of items ''internal_deliberation'' of None \<Rightarrow> PNone | Some v \<Rightarrow> v)"
    by (simp only: nth(4) row collected.simps list.sel)
  moreover have "align_list (collect_all_0_shot json_loads outs empty_collected) ! i =
          (case map_of items ''align_with_company'' of None \<Rightarrow> PNone | Some v \<Rightarrow> v)"
    by (simp only: nth(5) row collected.simps list.sel)
  moreover have "none_list (collect_all_0_shot json_loads outs empty_collected) ! i =
          (case map_of items ''none_of_the_above'' of None \<Rightarrow> PNone | Some v \<Rightarrow> v)"
    by (simp only: nth(6) row collected.simps list.sel)
  moreover have "reasons (collect_all_0_shot json_loads outs empty_collected) ! i =
          (case map_of items ''reason'' of None \<Rightarrow> PStr [] | Some v \<Rightarrow> v)"
    by (simp only: nth(7) row collected.simps list.sel)
  ultimately show ?thesis by blast
qed

theorem parsed_object_fields_default_witness:
  \<open>(0::nat) < length [\<lparr>outputs = [\<lparr>text_field = ''{"collective_voice": true}''\<rparr>]\<rparr>] \<and>
   outputs ([\<lparr>outputs = [\<lparr>text_field = ''{"collective_voice": true}''\<rparr>]\<rparr>] ! 0) =
     \<lparr>text_field = ''{"collective_voice": true}''\<rparr> # [] \<and>
   canned_parser [(''{"collective_voice": true}'', PDict [(''collective_voice'', PBool True)])]
       (strip (text_field \<lparr>text_field = ''{"collective_voice": true}''\<rparr>)) =
     Inr (PDict [(''collective_voice'', PBool True)]) \<and>
   indiv_list (collect_all_0_shot
       (canned_parser [(''{"collective_voice": true}'', PDict [(''collective_voice'', PBool True)])])
       [\<lparr>outputs = [\<lparr>text_field = ''{"collective_voice": true}''\<rparr>]\<rparr>] empty_collected) ! 0 = PNone \<and>
   coll_list (collect_all_0_shot
       (canned_parser [(''{"collective_voice": true}'', PDict [(''collective_voice'', PBool True)])])
       [\<lparr>outputs = [\<lparr>text_field = ''{"collective_voice": true}''\<rparr>]\<rparr>] empty_collected) ! 0 =
     PBool True \<and>
   reasons (collect_all_0_shot
       (canned_parser [(''{"collective_voice": true}'', PDict [(''collective_voice'', PBool True)])])
       [\<lparr>outputs = [\<lparr>text_field = ''{"collective_voice": true}''\<rparr>]\<rparr>] empty_collected) ! 0 =
     PStr []\<close>
proof -
  let ?js = \<open>''{"collective_voice": true}''\<close>
  let ?items = \<open>[(''collective_voice'', PBool True)]\<close>
  let ?p = \<open>canned_parser [(?js, PDict ?items)]\<close>
  let ?outs = \<open>[\<lparr>outputs = [\<lparr>text_field = ?js\<rparr>]\<rparr>]\<close>
  have h1: \<open>(0::nat) < length ?outs\<close> by simp
  have h2: \<open>outputs (?outs ! 0) = \<lparr>text_field = ?js\<rparr> # []\<close> by simp
  have h3: \<open>?p (strip (text_field \<lparr>text_field = ?js\<rparr>)) = Inr (PDict ?items)\<close> by code_simp
  have m1: \<open>map_of ?items ''individual_voice'' = None\<close> by code_simp
  have m2: \<open>map_of ?items ''collective_voice'' = Some (PBool True)\<close> by code_simp
  have m3: \<open>map_of ?items ''reason'' = None\<close> by code_simp
  note t = parsed_object_fields_default [where json_loads = ?p, OF h1 h2 h3]
  from t have a: \<open>indiv_list (collect_all_0_shot ?p ?outs empty_collected) ! 0 = PNone\<close>
    by (simp only: m1 option.case)
  from t have b: \<open>coll_list (collect_all_0_shot ?p ?outs empty_collected) ! 0 = PBool True\<close>
    by (simp only: m2 option.case)
  from t have c: \<open>reasons (collect_all_0_shot ?p ?outs empty_collected) ! 0 = PStr []\<close>
    by (simp only: m3 option.case)
  from h1 h2 h3 a b c show ?thesis by (intro conjI)
qed

text \<open>
  C10, as stated, fails on a parsed value that is not a dictionary: the text \<^verbatim>\<open>[]\<close>
  parses as a list, \<^verbatim>\<open>parsed.get\<close> raises inside the \<^verbatim>\<open>try\<close>, and the reason of the
  row is the error text, not the empty string.
\<close>

theorem parsed_non_object_records_error:
  "canned_parser [(''[]'', PList [])] (strip (text_field \<lparr>text_field = ''[]''\<rparr>)) = Inr (PList []) \<and>
   reasons (collect_all_0_shot (canned_parser [(''[]'', PList [])])
       [\<lparr>outputs = [\<lparr>text_field = ''[]''\<rparr>]\<rparr>] empty_collected) =
     [PStr (''JSON parse error: '' @ [CHR 0x27] @ ''list'' @ [CHR 0x27]
              @ '' object has no attribute '' @ [CHR 0x27] @ ''get'' @ [CHR 0x27])] \<and>
   reasons (collect_all_0_shot (canned_parser [(''[]'', PList [])])
       [\<lparr>outputs = [\<lparr>text_field = ''[]''\<rparr>]\<rparr>] empty_collected) \<noteq> [PStr []]"
  by code_simp

section \<open>Columns of the written table\<close>

lemma to_csv_frame:
  assumes "columns out = columns df @ new" and "nrows out = nrows df"
  shows "map (take (length (columns df))) (take (nrows df) (rows (to_csv out))) =
           rows (to_csv df)"
  using assms by (simp add: to_csv_def)

lemma to_csv_frame_empty:
  assumes "nrows df = 0"
  shows "map (take (length (columns df))) (take (nrows df) (rows (to_csv out))) =
           rows (to_csv df)"
  using assms by (simp add: to_csv_def)

text \<open>
  New columns under fresh names, assigned as lists of one length to a table: the names
  of the table's columns stay in place with the new names after them, the rows written
  start with the rows of the table, and unless an empty index was replaced the columns
  of the table are kept as they are.
\<close>

lemma setitems_fresh:
  assumes lens: "list_all (\<lambda>a. length (snd a) = n) as"
    and ne: "as \<noteq> []"
    and ok: "setitems df as = Inr out"
    and dist: "distinct (map fst as)"
    and fresh: "set (map fst as) \<inter> set (column_names df) = {}"
  shows "column_names out = column_names df @ map fst as"
    and "map (take (length (columns df))) (take (nrows df) (rows (to_csv out))) =
           rows (to_csv df)"
    and "0 < nrows df \<or> nrows out = nrows df \<Longrightarrow>
           \<exists>new. convert_columns as = Inr new \<and> columns out = columns df @ new"
proof -
  let ?fill = "map (\<lambda>c. (fst c, replicate n np_nan)) (columns df)"
  from setitems_equal_lengths [OF lens ne ok] obtain as'
    where cc: "convert_columns as = Inr as'"
      and alt: "(nrows df = n \<and> nrows out = nrows df \<and>
                 columns out = fold (\<lambda>a. AList.update (fst a) (snd a)) as' (columns df)) \<or>
                (nrows df = 0 \<and> 0 < n \<and> nrows out = n \<and>
                 columns out = fold (\<lambda>a. AList.update (fst a) (snd a)) as' ?fill)"
    by blast
  note names = convert_columns_names [OF cc]
  from dist names have d': "distinct (map fst as')" by simp
  from fresh have "set (map fst as') \<inter> set (map fst (columns df)) = {}"
    by (simp only: names column_names_def)
  then have f1: "fst ` set as' \<inter> fst ` set (columns df) = {}"
    by (simp only: set_map)
  have "map fst ?fill = map fst (columns df)" by (simp add: comp_def)
  then have "set (map fst ?fill) = set (map fst (columns df))" by (simp only:)
  then have "fst ` set ?fill = fst ` set (columns df)" by (simp only: set_map)
  with f1 have f2: "fst ` set as' \<inter> fst ` set ?fill = {}" by simp
  from alt consider
      (plain) "nrows out = nrows df" "columns out = columns df @ as'"
    | (reindex) "nrows df = 0" "0 < n" "nrows out = n" "columns out = ?fill @ as'"
    using fold_update_fresh [OF d' f1] fold_update_fresh [OF d' f2] by auto
  note cases = this
  show "column_names out = column_names df @ map fst as"
  proof (cases rule: cases)
    case plain
    with names show ?thesis by (simp add: column_names_def)
  next
    case reindex
    with names show ?thesis by (simp add: column_names_def comp_def)
  qed
  show "map (take (length (columns df))) (take (nrows df) (rows (to_csv out))) =
          rows (to_csv df)"
  proof (cases rule: cases)
    case plain
    from plain(2) plain(1) show ?thesis by (rule to_csv_frame)
  next
    case reindex
    from reindex(1) show ?thesis by (rule to_csv_frame_empty)
  qed
  show "\<exists>new. convert_columns as = Inr new \<and> columns out = columns df @ new"
    if "0 < nrows df \<or> nrows out = nrows df"
  proof (cases rule: cases)
    case plain
    with cc show ?thesis by blast
  next
    case reindex
    with that show ?thesis by simp
  qed
qed

lemma pass_through_0_shot:
  assumes run: "main_0_shot SYSTEM_INSTRUCTIONS generate json_loads df = ([prompts], Inr out)"
    and fresh: "set (column_names df) \<inter>
        {''voice_label_raw_json'', ''individual_voice'', ''collective_voice'',
         ''internal_deliberation'', ''align_with_company'', ''none_of_the_above'',
         ''reason''} = {}"
  shows "column_names out = column_names df @
           [''voice_label_raw_json'', ''individual_voice'', ''collective_voice'',
            ''internal_deliberation'', ''align_with_company'', ''none_of_the_above'',
            ''reason'']"
    and "map (take (length (columns df))) (take (nrows df) (rows (to_csv out))) =
           rows (to_csv df)"
    and "0 < nrows df \<or> nrows out = nrows df \<longrightarrow>
           (\<exists>new. convert_columns (result_columns_0_shot
                      (collect_all_0_shot json_loads (generate prompts) empty_collected)) =
                    Inr new \<and>
                  columns out = columns df @ new)"
proof -
  let ?as = "result_columns_0_shot
               (collect_all_0_shot json_loads (generate prompts) empty_collected)"
  from run have "snd (main_0_shot SYSTEM_INSTRUCTIONS generate json_loads df) = Inr out"
    by simp
  from main_0_shot_Inr [OF this] obtain ps
    where "fst (main_0_shot SYSTEM_INSTRUCTIONS generate json_loads df) = [ps]"
      and "setitems df (result_columns_0_shot
             (collect_all_0_shot json_loads (generate ps) empty_collected)) = Inr out"
    by blast
  with run have ok: "setitems df ?as = Inr out" by simp
  have names: "map fst ?as =
      [''voice_label_raw_json'', ''individual_voice'', ''collective_voice'',
       ''internal_deliberation'', ''align_with_company'', ''none_of_the_above'',
       ''reason'']"
    by (simp add: result_columns_0_shot_def)
  have ne: "?as \<noteq> []" by (simp add: result_columns_0_shot_def)
  have dist: "distinct (map fst ?as)" by (simp add: names)
  from fresh have "set (column_names df) \<inter> set (map fst ?as) = {}"
    by (simp only: names list.set)
  then have fr: "set (map fst ?as) \<inter> set (column_names df) = {}"
    by (rule trans [OF Int_commute])
  note lens = result_columns_0_shot_lengths [of "generate prompts" json_loads]
  note r = setitems_fresh [OF lens ne ok dist fr]
  from r(1) show "column_names out = column_names df @
      [''voice_label_raw_json'', ''individual_voice'', ''collective_voice'',
       ''internal_deliberation'', ''align_with_company'', ''none_of_the_above'',
       ''reason'']"
    by (simp only: names)
  from r(2) show "map (take (length (columns df))) (take (nrows df) (rows (to_csv out))) =
      rows (to_csv df)" .
  from r(3) show "0 < nrows df \<or> nrows out = nrows df \<longrightarrow>
      (\<exists>new. convert_columns ?as = Inr new \<and> columns out = columns df @ new)"
    by (rule impI)
qed

lemma pass_through_many_shots:
  assumes run: "main_many_shots SYSTEM_INSTRUCTIONS generate df = ([prompts], Inr out)"
    and fresh: "''voice_label'' \<notin> set (column_names df)"
  shows "column_names out = column_names df @ [''voice_label'']"
    and "map (take (length (columns df))) (take (nrows df) (rows (to_csv out))) =
           rows (to_csv df)"
    and "0 < nrows df \<or> nrows out = nrows df \<longrightarrow>
           columns out =
             columns df @ [(''voice_label'', collect_all_many_shots (generate prompts) [])]"
proof -
  let ?labels = "collect_all_many_shots (generate prompts) []"
  let ?as = "[(''voice_label'', ?labels)]"
  from run have "snd (main_many_shots SYSTEM_INSTRUCTIONS generate df) = Inr out"
    by simp
  from main_many_shots_Inr [OF this] obtain ps
    where "fst (main_many_shots SYSTEM_INSTRUCTIONS generate df) = [ps]"
      and "setitems df [(''voice_label'', collect_all_many_shots (generate ps) [])] = Inr out"
    by blast
  with run have ok: "setitems df ?as = Inr out" by simp
  have lens: "list_all (\<lambda>a. length (snd a) = length ?labels) ?as" by simp
  have ne: "?as \<noteq> []" by simp
  have dist: "distinct (map fst ?as)" by simp
  from fresh have fr: "set (map fst ?as) \<inter> set (column_names df) = {}" by simp
  note r = setitems_fresh [OF lens ne ok dist fr]
  have cc: "convert_columns ?as = Inr ?as"
    by (rule convert_columns_strs) (simp add: collect_all_many_shots_strs)
  from r(1) show "column_names out = column_names df @ [''voice_label'']" by simp
  from r(2) show "map (take (length (columns df))) (take (nrows df) (rows (to_csv out))) =
      rows (to_csv df)" .
  show "0 < nrows df \<or> nrows out = nrows df \<longrightarrow> columns out = columns df @ ?as"
  proof
    assume "0 < nrows df \<or> nrows out = nrows df"
    from r(3) [OF this] obtain new
      where "convert_columns ?as = Inr new" and "columns out = columns df @ new" by blast
    with cc show "columns out = columns df @ ?as" by simp
  qed
qed

text \<open>
  C9, as amended. When no column of the input table has the name of a result column,
  the table a run writes has the columns of the input table, in their order and under
  their names, followed only by the result columns: seven in the zero-shot script, one
  in the few-shot script. The rows of the input table are the first rows written, cut
  to the width of the input table. When the input table has a row, or the written table
  has as many rows as the input table, every column of the input table is in the written
  table with its cells unchanged, and the columns after them are the ones pandas makes
  of the collected lists.
\<close>

theorem input_columns_pass_through:
  "(\<forall>out prompts.
      main_0_shot SYSTEM_INSTRUCTIONS generate json_loads df = ([prompts], Inr out) \<and>
      set (column_names df) \<inter>
        {''voice_label_raw_json'', ''individual_voice'', ''collective_voice'',
         ''internal_deliberation'', ''align_with_company'', ''none_of_the_above'',
         ''reason''} = {} \<longrightarrow>
      column_names out = column_names df @
        [''voice_label_raw_json'', ''individual_voice'', ''collective_voice'',
         ''internal_deliberation'', ''align_with_company'', ''none_of_the_above'',
         ''reason''] \<and>
      map (take (length (columns df))) (take (nrows df) (rows (to_csv out))) =
        rows (to_csv df) \<and>
      (0 < nrows df \<or> nrows out = nrows df \<longrightarrow>
         (\<exists>new. convert_columns (result_columns_0_shot
                    (collect_all_0_shot json_loads (generate prompts) empty_collected)) =
                  Inr new \<and>
                columns out = columns df @ new))) \<and>
   (\<forall>out prompts.
      main_many_shots SYSTEM_INSTRUCTIONS generate df = ([prompts], Inr out) \<and>
      ''voice_label'' \<notin> set (column_names df) \<longrightarrow>
      column_names out = column_names df @ [''voice_label''] \<and>
      map (take (length (columns df))) (take (nrows df) (rows (to_csv out))) =
        rows (to_csv df) \<and>
      (0 < nrows df \<or> nrows out = nrows df \<longrightarrow>
         columns out =
           columns df @ [(''voice_label'', collect_all_many_shots (generate prompts) [])]))"
proof (intro conjI allI impI)
  fix out prompts
  assume a: "main_0_shot SYSTEM_INSTRUCTIONS generate json_loads df = ([prompts], Inr out) \<and>
      set (column_names df) \<inter>
        {''voice_label_raw_json'', ''individual_voice'', ''collective_voice'',
         ''internal_deliberation'', ''align_with_company'', ''none_of_the_above'',
         ''reason''} = {}"
  note z = pass_through_0_shot [OF conjunct1 [OF a] conjunct2 [OF a]]
  show "column_names out = column_names df @
        [''voice_label_raw_json'', ''individual_voice'', ''collective_voice'',
         ''internal_deliberation'', ''align_with_company'', ''none_of_the_above'',
         ''reason'']"
    by (rule z(1))
  show "map (take (length (columns df))) (take (nrows df) (rows (to_csv out))) =
        rows (to_csv df)"
    by (rule z(2))
  show "\<exists>new. convert_columns (result_columns_0_shot
                    (collect_all_0_shot json_loads (generate prompts) empty_collected)) =
                  Inr new \<and>
                columns out = columns df @ new"
    if "0 < nrows df \<or> nrows out = nrows df"
    using z(3) that by (rule mp)
next
  fix out prompts
  assume a: "main_many_shots SYSTEM_INSTRUCTIONS generate df = ([prompts], Inr out) \<and>
      ''voice_label'' \<notin> set (column_names df)"
  note m = pass_through_many_shots [OF conjunct1 [OF a] conjunct2 [OF a]]
  show "column_names out = column_names df @ [''voice_label'']"
    by (rule m(1))
  show "map (take (length (columns df))) (take (nrows df) (rows (to_csv out))) =
        rows (to_csv df)"
    by (rule m(2))
  show "columns out =
          columns df @ [(''voice_label'', collect_all_many_shots (generate prompts) [])]"
    if "0 < nrows df \<or> nrows out = nrows df"
    using m(3) that by (rule mp)
qed

theorem input_columns_pass_through_witness:
  "main_many_shots ''I'' (canned_service \<lparr>outputs = [\<lparr>text_field = ''yes''\<rparr>]\<rparr>)
       \<lparr>nrows = 1, columns = [(''id'', [PInt 7]), (''body_text'', [PStr ''we strike''])]\<rparr> =
     ([[''I\<newline>\<newline>Comment:\<newline>we strike\<newline>\<newline>Label:'']],
      Inr \<lparr>nrows = 1, columns = [(''id'', [PInt 7]), (''body_text'', [PStr ''we strike'']),
             (''voice_label'', [PStr ''yes''])]\<rparr>) \<and>
   ''voice_label'' \<notin> set (column_names
       \<lparr>nrows = 1, columns = [(''id'', [PInt 7]), (''body_text'', [PStr ''we strike''])]\<rparr>) \<and>
   (0::nat) < nrows \<lparr>nrows = 1, columns = [(''id'', [PInt 7]), (''body_text'', [PStr ''we strike''])]\<rparr> \<and>
   columns \<lparr>nrows = 1, columns = [(''id'', [PInt 7]), (''body_text'', [PStr ''we strike'']),
             (''voice_label'', [PStr ''yes''])]\<rparr> =
     columns \<lparr>nrows = 1, columns = [(''id'', [PInt 7]), (''body_text'', [PStr ''we strike''])]\<rparr>
       @ [(''voice_label'', [PStr ''yes''])] \<and>
   column_names \<lparr>nrows = 1, columns = [(''id'', [PInt 7]), (''body_text'', [PStr ''we strike'']),
             (''voice_label'', [PStr ''yes''])]\<rparr> =
     column_names \<lparr>nrows = 1, columns = [(''id'', [PInt 7]), (''body_text'', [PStr ''we strike''])]\<rparr>
       @ [''voice_label''] \<and>
   map (take (length (columns
       \<lparr>nrows = 1, columns = [(''id'', [PInt 7]), (''body_text'', [PStr ''we strike''])]\<rparr>)))
     (take (nrows \<lparr>nrows = 1, columns = [(''id'', [PInt 7]), (''body_text'', [PStr ''we strike''])]\<rparr>)
       (rows (to_csv \<lparr>nrows = 1, columns = [(''id'', [PInt 7]), (''body_text'', [PStr ''we strike'']),
             (''voice_label'', [PStr ''yes''])]\<rparr>))) =
   rows (to_csv \<lparr>nrows = 1, columns = [(''id'', [PInt 7]), (''body_text'', [PStr ''we strike''])]\<rparr>) \<and>
   main_0_shot ''I'' (canned_service \<lparr>outputs = [\<lparr>text_field = ''{}''\<rparr>]\<rparr>)
       (canned_parser [(''{}'', PDict [])])
       \<lparr>nrows = 1, columns = [(''body_text'', [PStr ''we strike''])]\<rparr> =
     ([[''I\<newline>\<newline>Comment:\<newline>we strike\<newline>\<newline>Return ONLY the JSON object.'']],
      Inr \<lparr>nrows = 1, columns = [(''body_text'', [PStr ''we strike'']),
             (''voice_label_raw_json'', [PStr ''{}'']),
             (''individual_voice'', [PNone]), (''collective_voice'', [PNone]),
             (''internal_deliberation'', [PNone]), (''align_with_company'', [PNone]),
             (''none_of_the_above'', [PNone]), (''reason'', [PStr []])]\<rparr>) \<and>
   set (column_names \<lparr>nrows = 1, columns = [(''body_text'', [PStr ''we strike''])]\<rparr>) \<inter>
        {''voice_label_raw_json'', ''individual_voice'', ''collective_voice'',
         ''internal_deliberation'', ''align_with_company'', ''none_of_the_above'',
         ''reason''} = {} \<and>
   column_names \<lparr>nrows = 1, columns = [(''body_text'', [PStr ''we strike'']),
             (''voice_label_raw_json'', [PStr ''{}'']),
             (''individual_voice'', [PNone]), (''collective_voice'', [PNone]),
             (''internal_deliberation'', [PNone]), (''align_with_company'', [PNone]),
             (''none_of_the_above'', [PNone]), (''reason'', [PStr []])]\<rparr> =
     column_names \<lparr>nrows = 1, columns = [(''body_text'', [PStr ''we strike''])]\<rparr> @
        [''voice_label_raw_json'', ''individual_voice'', ''collective_voice'',
         ''internal_deliberation'', ''align_with_company'', ''none_of_the_above'',
         ''reason'']"
proof -
  let ?df = "\<lparr>nrows = 1, columns = [(''id'', [PInt 7]), (''body_text'', [PStr ''we strike''])]\<rparr>"
  let ?g = "canned_service \<lparr>outputs = [\<lparr>text_field = ''yes''\<rparr>]\<rparr>"
  let ?out = "\<lparr>nrows = 1, columns = [(''id'', [PInt 7]), (''body_text'', [PStr ''we strike'']),
             (''voice_label'', [PStr ''yes''])]\<rparr>"
  let ?prompts = "[''I\<newline>\<newline>Comment:\<newline>we strike\<newline>\<newline>Label:'']"
  let ?dfz = "\<lparr>nrows = 1, columns = [(''body_text'', [PStr ''we strike''])]\<rparr>"
  let ?gz = "canned_service \<lparr>outputs = [\<lparr>text_field = ''{}''\<rparr>]\<rparr>"
  let ?pz = "canned_parser [(''{}'', PDict [])]"
  let ?outz = "\<lparr>nrows = 1, columns = [(''body_text'', [PStr ''we strike'']),
             (''voice_label_raw_json'', [PStr ''{}'']),
             (''individual_voice'', [PNone]), (''collective_voice'', [PNone]),
             (''internal_deliberation'', [PNone]), (''align_with_company'', [PNone]),
             (''none_of_the_above'', [PNone]), (''reason'', [PStr []])]\<rparr>"
  let ?promptsz = "[''I\<newline>\<newline>Comment:\<newline>we strike\<newline>\<newline>Return ONLY the JSON object.'']"
  have run: "main_many_shots ''I'' ?g ?df = ([?prompts], Inr ?out)" by code_simp
  have fresh: "''voice_label'' \<notin> set (column_names ?df)" by code_simp
  have pos: "(0::nat) < nrows ?df" by simp
  have run0: "main_0_shot ''I'' ?gz ?pz ?dfz = ([?promptsz], Inr ?outz)" by code_simp
  have fresh0: "set (column_names ?dfz) \<inter>
        {''voice_label_raw_json'', ''individual_voice'', ''collective_voice'',
         ''internal_deliberation'', ''align_with_company'', ''none_of_the_above'',
         ''reason''} = {}"
    by code_simp
  note t = input_columns_pass_through [of "''I''" ?g "canned_parser []" ?df,
             THEN conjunct2, THEN spec, THEN spec, THEN mp, OF conjI [OF run fresh]]
  note t0 = input_columns_pass_through [of "''I''" ?gz ?pz ?dfz,
             THEN conjunct1, THEN spec, THEN spec, THEN mp, OF conjI [OF run0 fresh0]]
  from t have n: "column_names ?out = column_names ?df @ [''voice_label'']"
    by (rule conjunct1)
  from t have r: "map (take (length (columns ?df))) (take (nrows ?df) (rows (to_csv ?out))) =
                    rows (to_csv ?df)"
    by (rule conjunct1 [OF conjunct2])
  from t have "0 < nrows ?df \<or> nrows ?out = nrows ?df \<longrightarrow>
      columns ?out = columns ?df @ [(''voice_label'', collect_all_many_shots (?g ?prompts) [])]"
    by (rule conjunct2 [OF conjunct2])
  with pos have "columns ?out =
      columns ?df @ [(''voice_label'', collect_all_many_shots (?g ?prompts) [])]"
    by blast
  moreover have "collect_all_many_shots (?g ?prompts) [] = [PStr ''yes'']" by code_simp
  ultimately have c: "columns ?out = columns ?df @ [(''voice_label'', [PStr ''yes''])]"
    by (simp only:)
  from t0 have n0: "column_names ?outz = column_names ?dfz @
        [''voice_label_raw_json'', ''individual_voice'', ''collective_voice'',
         ''internal_deliberation'', ''align_with_company'', ''none_of_the_above'',
         ''reason'']"
    by (rule conjunct1)
  from run fresh pos c n r run0 fresh0 n0 show ?thesis by (intro conjI)
qed

text \<open>
  C9, as stated, fails on an input table that already has a column named like a result
  column: the assignment replaces the cells of that column, and nothing is appended.
\<close>

theorem existing_result_column_is_overwritten:
  "snd (main_many_shots ''I'' (canned_service \<lparr>outputs = [\<lparr>text_field = ''yes''\<rparr>]\<rparr>)
       \<lparr>nrows = 1, columns = [(''body_text'', [PStr ''we strike'']),
                               (''voice_label'', [PStr ''gold''])]\<rparr>) =
     Inr \<lparr>nrows = 1, columns = [(''body_text'', [PStr ''we strike'']),
                                 (''voice_label'', [PStr ''yes''])]\<rparr> \<and>
   getitem \<lparr>nrows = 1, columns = [(''body_text'', [PStr ''we strike'']),
                                  (''voice_label'', [PStr ''gold''])]\<rparr> ''voice_label'' =
     Inr [PStr ''gold''] \<and>
   getitem \<lparr>nrows = 1, columns = [(''body_text'', [PStr ''we strike'']),
                                  (''voice_label'', [PStr ''yes''])]\<rparr> ''voice_label'' =
     Inr [PStr ''yes''] \<and>
   wf_dataframe \<lparr>nrows = 1, columns = [(''body_text'', [PStr ''we strike'']),
                                       (''voice_label'', [PStr ''gold''])]\<rparr>"
  by code_simp

end
